theory Spec2Isabelle
  imports Main "HOL-Library.Sublist"
begin

section \<open>Paths: the functions of Python's posixpath that the scripts call\<close>

text \<open>
  Both scripts (\<^verbatim>\<open>test.py\<close> and \<^verbatim>\<open>spotless_apply.py\<close>) work on path strings through
  \<^verbatim>\<open>os.path.join\<close>, \<^verbatim>\<open>os.path.dirname\<close> and \<^verbatim>\<open>os.path.abspath\<close>. These belong to the
  Python standard library, not to the repository; they are written out here as CPython's
  \<^verbatim>\<open>posixpath\<close> module defines them, on strings, so that the loops of the scripts can be
  run on concrete paths.
\<close>

type_synonym path = string

abbreviation sep :: char where
  "sep \<equiv> CHR ''/''"

text \<open>\<^verbatim>\<open>p.startswith('/')\<close>\<close>

definition os_path_isabs :: "path \<Rightarrow> bool" where
  "os_path_isabs p = (case p of [] \<Rightarrow> False | c # _ \<Rightarrow> c = sep)"

text \<open>
  \<^verbatim>\<open>os.path.join(a, b)\<close> with two arguments:
  \<^verbatim>\<open>
  if b.startswith(sep): path = b
  elif not path or path.endswith(sep): path += b
  else: path += sep + b
  \<close>
\<close>

definition os_path_join :: "path \<Rightarrow> path \<Rightarrow> path" where
  "os_path_join a b =
     (if os_path_isabs b then b
      else if a = [] \<or> last a = sep then a @ b
      else a @ sep # b)"

text \<open>
  \<^verbatim>\<open>
  def dirname(p):
      i = p.rfind(sep) + 1
      head = p[:i]
      if head and head != sep*len(head):
          head = head.rstrip(sep)
      return head
  \<close>
\<close>

definition os_path_dirname :: "path \<Rightarrow> path" where
  "os_path_dirname p =
     (let head = rev (dropWhile (\<lambda>c. c \<noteq> sep) (rev p)) in
      if head \<noteq> [] \<and> head \<noteq> replicate (length head) sep
      then rev (dropWhile (\<lambda>c. c = sep) (rev head))
      else head)"

text \<open>\<^verbatim>\<open>p.split('/')\<close> and \<^verbatim>\<open>'/'.join(comps)\<close>\<close>

fun split_sep :: "string \<Rightarrow> string list" where
  "split_sep [] = [[]]"
| "split_sep (c # cs) =
     (if c = sep then [] # split_sep cs
      else (case split_sep cs of [] \<Rightarrow> [[c]] | x # xs \<Rightarrow> (c # x) # xs))"

fun join_sep :: "string list \<Rightarrow> string" where
  "join_sep [] = []"
| "join_sep [x] = x"
| "join_sep (x # y # ys) = x @ sep # join_sep (y # ys)"

text \<open>
  \<^verbatim>\<open>
  def normpath(path):
      if not path: return '.'
      initial_slashes = path.startswith('/')
      if (initial_slashes and path.startswith('//') and not path.startswith('///')):
          initial_slashes = 2
      comps = path.split('/')
      new_comps = []
      for comp in comps:
          if comp in ('', '.'): continue
          if (comp != '..' or (not initial_slashes and not new_comps) or
               (new_comps and new_comps[-1] == '..')):
              new_comps.append(comp)
          elif new_comps:
              new_comps.pop()
      comps = new_comps
      path = '/'.join(comps)
      if initial_slashes: path = '/'*initial_slashes + path
      return path or '.'
  \<close>
\<close>

definition initial_slashes :: "path \<Rightarrow> nat" where
  "initial_slashes p =
     (if os_path_isabs p
      then (if prefix ''//'' p \<and> \<not> prefix ''///'' p then 2 else 1)
      else 0)"

definition normpath_step :: "nat \<Rightarrow> string list \<Rightarrow> string \<Rightarrow> string list" where
  "normpath_step nsl new_comps component =
     (if component = [] \<or> component = ''.'' then new_comps
      else if component \<noteq> ''..'' \<or> (nsl = 0 \<and> new_comps = [])
                \<or> (new_comps \<noteq> [] \<and> last new_comps = ''..'')
      then new_comps @ [component]
      else if new_comps \<noteq> [] then butlast new_comps
      else new_comps)"

definition os_path_normpath :: "path \<Rightarrow> path" where
  "os_path_normpath p =
     (if p = [] then ''.''
      else
        let nsl = initial_slashes p;
            comps = foldl (normpath_step nsl) [] (split_sep p);
            joined = join_sep comps;
            res = (if nsl \<noteq> 0 then replicate nsl sep @ joined else joined)
        in if res = [] then ''.'' else res)"

section \<open>The environment of one run\<close>

text \<open>
  A run of either script reads the file system, the search path and the working directory,
  writes lines to the two console streams and starts at most one child process. The
  environment is a record of what each of these calls answers; it does not change during
  the run. Every call into it is recorded as an event, in the order the script makes it,
  so that statements about what a run never does can be made about its trace.
\<close>

text \<open>What \<^verbatim>\<open>subprocess.run(cmd, cwd=cwd)\<close> does: it returns a completed process with a
  return code, or raises.\<close>

datatype run_result =
    Returncode int
  | FileNotFoundError
  | KeyboardInterrupt
  | OtherException

record os_env =
  os_getcwd :: path
  os_path_exists :: "path \<Rightarrow> bool"
  os_access_X_OK :: "path \<Rightarrow> bool"
  shutil_which :: "string \<Rightarrow> string option"
  subprocess_run :: "string list \<Rightarrow> path \<Rightarrow> run_result"

text \<open>
  The lines the scripts print. The texts are Portuguese and fixed; a constructor stands for
  each text and carries the values printed with it.
\<close>

datatype message =
    Executando "string list"
  | Comando_nao_encontrado string
  | Interrompido_pelo_usuario
  | Erro_ao_executar_comando
  | Projeto_Maven_detectado_em path
  | Maven_nao_encontrado
  | Projeto_Gradle_detectado_em path
  | Gradle_nao_encontrado
  | Dry_run_Comando "string list" path
  | Nenhum_projeto_a_partir_de path
  | Nenhum_projeto_nenhuma_acao

datatype event =
    Exists path
  | Access path
  | Which string
  | Stdout message
  | Stderr message
  | Run "string list" path

text \<open>An exception that leaves a function of the scripts uncaught.\<close>

datatype exn = KeyboardInterrupt_raised | IndexError_raised

text \<open>Python's truth value of an optional string: \<^verbatim>\<open>None\<close> and \<^verbatim>\<open>''\<close> are false.\<close>

fun truthy :: "string option \<Rightarrow> bool" where
  "truthy None = False"
| "truthy (Some s) = (s \<noteq> [])"

text \<open>\<^verbatim>\<open>start or os.getcwd()\<close>\<close>

definition start_or_cwd :: "os_env \<Rightarrow> string option \<Rightarrow> path" where
  "start_or_cwd env start =
     (case start of None \<Rightarrow> os_getcwd env | Some s \<Rightarrow> if s \<noteq> [] then s else os_getcwd env)"

text \<open>
  \<^verbatim>\<open>
  def abspath(path):
      if not isabs(path):
          cwd = os.getcwd()
          path = join(cwd, path)
      return normpath(path)
  \<close>
\<close>

definition os_path_abspath :: "os_env \<Rightarrow> path \<Rightarrow> path" where
  "os_path_abspath env p =
     os_path_normpath (if os_path_isabs p then p else os_path_join (os_getcwd env) p)"

section \<open>Root locator: \<^verbatim>\<open>find_project_root_with\<close>\<close>

text \<open>
  The inner loop \<^verbatim>\<open>for m in markers: if os.path.exists(os.path.join(cur, m)): return cur\<close>:
  whether some marker is found directly under \<open>cur\<close>, and the queries made.
\<close>

fun marker_scan :: "os_env \<Rightarrow> path \<Rightarrow> string list \<Rightarrow> bool \<times> event list" where
  "marker_scan env cur [] = (False, [])"
| "marker_scan env cur (m # ms) =
     (if os_path_exists env (os_path_join cur m)
      then (True, [Exists (os_path_join cur m)])
      else (fst (marker_scan env cur ms),
            Exists (os_path_join cur m) # snd (marker_scan env cur ms)))"

lemma prefix_rev_dropWhile: "prefix (rev (dropWhile P (rev xs))) xs"
proof -
  have "rev (takeWhile P (rev xs) @ dropWhile P (rev xs)) = xs"
    by simp
  then have "rev (dropWhile P (rev xs)) @ rev (takeWhile P (rev xs)) = xs"
    by (simp only: rev_append)
  then show ?thesis
    by (metis prefixI)
qed

lemma prefix_dirname: "prefix (os_path_dirname p) p"
proof -
  let ?head = "rev (dropWhile (\<lambda>c. c \<noteq> sep) (rev p))"
  have h: "prefix ?head p"
    by (rule prefix_rev_dropWhile)
  have "prefix (rev (dropWhile (\<lambda>c. c = sep) (rev ?head))) ?head"
    by (rule prefix_rev_dropWhile)
  with h have "prefix (rev (dropWhile (\<lambda>c. c = sep) (rev ?head))) p"
    by (rule prefix_order.trans[rotated])
  with h show ?thesis
    by (simp add: os_path_dirname_def Let_def)
qed

lemma dirname_shorter:
  "os_path_dirname cur \<noteq> cur \<Longrightarrow> length (os_path_dirname cur) < length cur"
  using prefix_dirname[of cur] by (simp add: prefix_length_less strict_prefix_def)

text \<open>
  The loop of \<^verbatim>\<open>find_project_root_with\<close>, the same text in both scripts:
  \<^verbatim>\<open>
  while True:
      for m in markers:
          if os.path.exists(os.path.join(cur, m)):
              return cur
      parent = os.path.dirname(cur)
      if parent == cur:
          return None
      cur = parent
  \<close>
\<close>

function find_root_loop :: "os_env \<Rightarrow> string list \<Rightarrow> path \<Rightarrow> path option \<times> event list" where
  "find_root_loop env markers cur =
     (if fst (marker_scan env cur markers) then (Some cur, snd (marker_scan env cur markers))
      else if os_path_dirname cur = cur then (None, snd (marker_scan env cur markers))
      else (fst (find_root_loop env markers (os_path_dirname cur)),
            snd (marker_scan env cur markers)
              @ snd (find_root_loop env markers (os_path_dirname cur))))"
  by pat_completeness auto
termination
  by (relation "measure (\<lambda>(env, markers, cur). length cur)") (auto simp: dirname_shorter)


text \<open>
  \<^verbatim>\<open>test.py\<close>: \<^verbatim>\<open>cur = os.path.abspath(start or os.getcwd())\<close>;
  \<^verbatim>\<open>spotless_apply.py\<close>: \<^verbatim>\<open>cur = os.path.abspath(os.getcwd())\<close>.
\<close>

definition test_find_project_root_with ::
  "os_env \<Rightarrow> string list \<Rightarrow> string option \<Rightarrow> path option \<times> event list" where
  "test_find_project_root_with env markers start =
     find_root_loop env markers (os_path_abspath env (start_or_cwd env start))"

definition spotless_find_project_root_with ::
  "os_env \<Rightarrow> string list \<Rightarrow> path option \<times> event list" where
  "spotless_find_project_root_with env markers =
     find_root_loop env markers (os_path_abspath env (os_getcwd env))"

text \<open>
  The same loop with a budget of iterations, \<open>None\<close> when the budget runs out before the
  loop returns. It serves to state how many iterations the loop makes at most.
\<close>

fun find_root_fuel ::
  "nat \<Rightarrow> os_env \<Rightarrow> string list \<Rightarrow> path \<Rightarrow> (path option \<times> event list) option" where
  "find_root_fuel 0 env markers cur = None"
| "find_root_fuel (Suc n) env markers cur =
     (if fst (marker_scan env cur markers) then Some (Some cur, snd (marker_scan env cur markers))
      else if os_path_dirname cur = cur then Some (None, snd (marker_scan env cur markers))
      else (case find_root_fuel n env markers (os_path_dirname cur) of
              None \<Rightarrow> None
            | Some (r, tr) \<Rightarrow> Some (r, snd (marker_scan env cur markers) @ tr)))"

section \<open>Tool resolver: \<^verbatim>\<open>which_in_dir\<close>\<close>

text \<open>\<^verbatim>\<open>str.lower()\<close> on ASCII letters, and \<^verbatim>\<open>s.endswith(('.bat', '.cmd'))\<close>.\<close>

definition lower_char :: "char \<Rightarrow> char" where
  "lower_char c =
     (if 65 \<le> (of_char c :: nat) \<and> (of_char c :: nat) \<le> 90
      then char_of ((of_char c :: nat) + 32) else c)"

definition lower :: "string \<Rightarrow> string" where
  "lower s = map lower_char s"

definition endswith_bat_cmd :: "string \<Rightarrow> bool" where
  "endswith_bat_cmd s = (suffix ''.bat'' s \<or> suffix ''.cmd'' s)"

text \<open>
  The first loop of \<^verbatim>\<open>which_in_dir\<close> in \<^verbatim>\<open>test.py\<close>:
  \<^verbatim>\<open>
  for name in names:
      candidate = os.path.join(dirpath, name)
      if os.path.exists(candidate):
          if os.access(candidate, os.X_OK) or candidate.lower().endswith(('.bat', '.cmd')):
              return candidate
  \<close>
\<close>

fun test_which_local :: "os_env \<Rightarrow> path \<Rightarrow> string list \<Rightarrow> path option \<times> event list" where
  "test_which_local env dirpath [] = (None, [])"
| "test_which_local env dirpath (name # names) =
     (let candidate = os_path_join dirpath name in
      if os_path_exists env candidate
      then (if os_access_X_OK env candidate \<or> endswith_bat_cmd (lower candidate)
            then (Some candidate, [Exists candidate, Access candidate])
            else (fst (test_which_local env dirpath names),
                  Exists candidate # Access candidate # snd (test_which_local env dirpath names)))
      else (fst (test_which_local env dirpath names),
            Exists candidate # snd (test_which_local env dirpath names)))"

text \<open>
  The first loop of \<^verbatim>\<open>which_in_dir\<close> in \<^verbatim>\<open>spotless_apply.py\<close>:
  \<^verbatim>\<open>
  for name in names:
      candidate = os.path.join(dirpath, name)
      if os.path.exists(candidate) and os.access(candidate, os.X_OK):
          return candidate
  \<close>
\<close>

fun spotless_which_local :: "os_env \<Rightarrow> path \<Rightarrow> string list \<Rightarrow> path option \<times> event list" where
  "spotless_which_local env dirpath [] = (None, [])"
| "spotless_which_local env dirpath (name # names) =
     (let candidate = os_path_join dirpath name in
      if os_path_exists env candidate
      then (if os_access_X_OK env candidate
            then (Some candidate, [Exists candidate, Access candidate])
            else (fst (spotless_which_local env dirpath names),
                  Exists candidate # Access candidate # snd (spotless_which_local env dirpath names)))
      else (fst (spotless_which_local env dirpath names),
            Exists candidate # snd (spotless_which_local env dirpath names)))"

text \<open>
  The second loop, the same text in both scripts:
  \<^verbatim>\<open>
  for name in names:
      exe = shutil.which(name)
      if exe:
          return exe
  return None
  \<close>
\<close>

fun which_on_path :: "os_env \<Rightarrow> string list \<Rightarrow> string option \<times> event list" where
  "which_on_path env [] = (None, [])"
| "which_on_path env (name # names) =
     (if truthy (shutil_which env name) then (shutil_which env name, [Which name])
      else (fst (which_on_path env names), Which name # snd (which_on_path env names)))"

definition test_which_in_dir ::
  "os_env \<Rightarrow> string list \<Rightarrow> path \<Rightarrow> string option \<times> event list" where
  "test_which_in_dir env names dirpath =
     (case test_which_local env dirpath names of
        (Some candidate, tr) \<Rightarrow> (Some candidate, tr)
      | (None, tr) \<Rightarrow> (fst (which_on_path env names), tr @ snd (which_on_path env names)))"

definition spotless_which_in_dir ::
  "os_env \<Rightarrow> string list \<Rightarrow> path \<Rightarrow> string option \<times> event list" where
  "spotless_which_in_dir env names dirpath =
     (case spotless_which_local env dirpath names of
        (Some candidate, tr) \<Rightarrow> (Some candidate, tr)
      | (None, tr) \<Rightarrow> (fst (which_on_path env names), tr @ snd (which_on_path env names)))"

section \<open>Command runner: \<^verbatim>\<open>run_cmd\<close>\<close>

text \<open>
  \<^verbatim>\<open>test.py\<close>:
  \<^verbatim>\<open>
  print("Executando:", " ".join(cmd))
  try:
      proc = subprocess.run(cmd, cwd=cwd)
      return proc.returncode
  except FileNotFoundError:
      print(f"Comando nao encontrado: {cmd[0]}", file=sys.stderr)
      return 127
  except KeyboardInterrupt:
      print("Interrompido pelo usuario.", file=sys.stderr)
      return 130
  except Exception as e:
      print("Erro ao executar comando:", e, file=sys.stderr)
      return 1
  \<close>
  \<^verbatim>\<open>cmd[0]\<close> in the first handler raises \<^verbatim>\<open>IndexError\<close> on an empty command, and no
  handler of this \<^verbatim>\<open>try\<close> catches what a handler raises.
\<close>

definition test_run_cmd :: "os_env \<Rightarrow> string list \<Rightarrow> path \<Rightarrow> (exn + int) \<times> event list" where
  "test_run_cmd env cmd cwd =
     (case subprocess_run env cmd cwd of
        Returncode rc \<Rightarrow> (Inr rc, [Stdout (Executando cmd), Run cmd cwd])
      | FileNotFoundError \<Rightarrow>
          (case cmd of
             [] \<Rightarrow> (Inl IndexError_raised, [Stdout (Executando cmd), Run cmd cwd])
           | c # _ \<Rightarrow> (Inr 127, [Stdout (Executando cmd), Run cmd cwd,
                                Stderr (Comando_nao_encontrado c)]))
      | KeyboardInterrupt \<Rightarrow>
          (Inr 130, [Stdout (Executando cmd), Run cmd cwd, Stderr Interrompido_pelo_usuario])
      | OtherException \<Rightarrow>
          (Inr 1, [Stdout (Executando cmd), Run cmd cwd, Stderr Erro_ao_executar_comando]))"

text \<open>
  \<^verbatim>\<open>spotless_apply.py\<close> has the handlers for \<^verbatim>\<open>FileNotFoundError\<close> and \<^verbatim>\<open>Exception\<close> only.
  \<^verbatim>\<open>KeyboardInterrupt\<close> derives from \<^verbatim>\<open>BaseException\<close>, not from \<^verbatim>\<open>Exception\<close>, so it
  leaves \<^verbatim>\<open>run_cmd\<close> uncaught.
\<close>

definition spotless_run_cmd :: "os_env \<Rightarrow> string list \<Rightarrow> path \<Rightarrow> (exn + int) \<times> event list" where
  "spotless_run_cmd env cmd cwd =
     (case subprocess_run env cmd cwd of
        Returncode rc \<Rightarrow> (Inr rc, [Stdout (Executando cmd), Run cmd cwd])
      | FileNotFoundError \<Rightarrow>
          (case cmd of
             [] \<Rightarrow> (Inl IndexError_raised, [Stdout (Executando cmd), Run cmd cwd])
           | c # _ \<Rightarrow> (Inr 127, [Stdout (Executando cmd), Run cmd cwd,
                                Stderr (Comando_nao_encontrado c)]))
      | KeyboardInterrupt \<Rightarrow>
          (Inl KeyboardInterrupt_raised, [Stdout (Executando cmd), Run cmd cwd])
      | OtherException \<Rightarrow>
          (Inr 1, [Stdout (Executando cmd), Run cmd cwd, Stderr Erro_ao_executar_comando]))"

section \<open>Orchestrators\<close>

definition MAVEN_MARKERS :: "string list" where
  "MAVEN_MARKERS = [''pom.xml'']"

definition GRADLE_MARKERS :: "string list" where
  "GRADLE_MARKERS = [''build.gradle'', ''build.gradle.kts'']"

definition MAVEN_WRAPPERS :: "string list" where
  "MAVEN_WRAPPERS = [''mvnw'', ''mvnw.cmd'', ''mvn'']"

definition GRADLE_WRAPPERS :: "string list" where
  "GRADLE_WRAPPERS = [''gradlew'', ''gradlew.bat'', ''gradle'', ''gradle.bat'']"

text \<open>
  \<^verbatim>\<open>detect_and_run_tests(start_dir, task, dry_run)\<close> of \<^verbatim>\<open>test.py\<close>. The tests
  \<^verbatim>\<open>if mroot:\<close>, \<^verbatim>\<open>if not mvn:\<close> are Python truth values; \<open>the\<close> is applied only under them.
\<close>

definition detect_and_run_tests ::
  "os_env \<Rightarrow> string option \<Rightarrow> string \<Rightarrow> bool \<Rightarrow> (exn + int) \<times> event list" where
  "detect_and_run_tests env start_dir task dry_run =
     (let (mroot, tr_m) = test_find_project_root_with env MAVEN_MARKERS start_dir in
      if truthy mroot then
        (let (mvn, tr_w) = test_which_in_dir env MAVEN_WRAPPERS (the mroot);
             tr = tr_m @ Stdout (Projeto_Maven_detectado_em (the mroot)) # tr_w in
         if \<not> truthy mvn then (Inr 127, tr @ [Stderr Maven_nao_encontrado])
         else if dry_run
         then (Inr 0, tr @ [Stdout (Dry_run_Comando [the mvn, task] (the mroot))])
         else (let (rc, tr_r) = test_run_cmd env [the mvn, task] (the mroot)
               in (rc, tr @ tr_r)))
      else
        (let (groot, tr_g) = test_find_project_root_with env GRADLE_MARKERS start_dir in
         if truthy groot then
           (let (gradle, tr_w) = test_which_in_dir env GRADLE_WRAPPERS (the groot);
                tr = tr_m @ tr_g @ Stdout (Projeto_Gradle_detectado_em (the groot)) # tr_w in
            if \<not> truthy gradle then (Inr 127, tr @ [Stderr Gradle_nao_encontrado])
            else if dry_run
            then (Inr 0, tr @ [Stdout (Dry_run_Comando [the gradle, task] (the groot))])
            else (let (rc, tr_r) = test_run_cmd env [the gradle, task] (the groot)
                  in (rc, tr @ tr_r)))
         else
           (Inr 0, tr_m @ tr_g
                     @ [Stdout (Nenhum_projeto_a_partir_de (start_or_cwd env start_dir))])))"

text \<open>
  \<^verbatim>\<open>main\<close> of \<^verbatim>\<open>test.py\<close> passes the parsed arguments on; the script exits with what it
  returns (\<^verbatim>\<open>rc = main(); sys.exit(rc)\<close>).
\<close>

record args =
  arg_cwd :: "string option"
  arg_task :: string
  arg_dry_run :: bool

definition test_main :: "os_env \<Rightarrow> args \<Rightarrow> (exn + int) \<times> event list" where
  "test_main env a = detect_and_run_tests env (arg_cwd a) (arg_task a) (arg_dry_run a)"

text \<open>\<^verbatim>\<open>main()\<close> of \<^verbatim>\<open>spotless_apply.py\<close>.\<close>

definition spotless_main :: "os_env \<Rightarrow> (exn + int) \<times> event list" where
  "spotless_main env =
     (let (mroot, tr_m) = spotless_find_project_root_with env MAVEN_MARKERS in
      if truthy mroot then
        (let (mvn, tr_w) = spotless_which_in_dir env MAVEN_WRAPPERS (the mroot);
             tr = tr_m @ Stdout (Projeto_Maven_detectado_em (the mroot)) # tr_w in
         if \<not> truthy mvn then (Inr 127, tr @ [Stderr Maven_nao_encontrado])
         else (let (rc, tr_r) = spotless_run_cmd env [the mvn, ''spotless:apply''] (the mroot)
               in (rc, tr @ tr_r)))
      else
        (let (groot, tr_g) = spotless_find_project_root_with env GRADLE_MARKERS in
         if truthy groot then
           (let (gradle, tr_w) = spotless_which_in_dir env GRADLE_WRAPPERS (the groot);
                tr = tr_m @ tr_g @ Stdout (Projeto_Gradle_detectado_em (the groot)) # tr_w in
            if \<not> truthy gradle then (Inr 127, tr @ [Stderr Gradle_nao_encontrado])
            else (let (rc, tr_r) = spotless_run_cmd env [the gradle, ''spotlessApply''] (the groot)
                  in (rc, tr @ tr_r)))
         else (Inr 0, tr_m @ tr_g @ [Stdout Nenhum_projeto_nenhuma_acao])))"

section \<open>Vocabulary for the properties\<close>

text \<open>
  The condition under which the first loop of \<^verbatim>\<open>which_in_dir\<close> returns a candidate, in
  \<^verbatim>\<open>test.py\<close> and in \<^verbatim>\<open>spotless_apply.py\<close>.
\<close>

definition test_invocable :: "os_env \<Rightarrow> path \<Rightarrow> bool" where
  "test_invocable env candidate =
     (os_path_exists env candidate
      \<and> (os_access_X_OK env candidate \<or> endswith_bat_cmd (lower candidate)))"

definition spotless_invocable :: "os_env \<Rightarrow> path \<Rightarrow> bool" where
  "spotless_invocable env candidate =
     (os_path_exists env candidate \<and> os_access_X_OK env candidate)"

text \<open>The last component of a path, \<^verbatim>\<open>os.path.basename\<close>: \<^verbatim>\<open>p[p.rfind('/') + 1:]\<close>.\<close>

definition os_path_basename :: "path \<Rightarrow> string" where
  "os_path_basename p = rev (takeWhile (\<lambda>c. c \<noteq> sep) (rev p))"

text \<open>
  Kinds of events. An event probes a list of names when it asks the file system about a file
  with one of these names, or the search path about one of these names.
\<close>

fun is_Run :: "event \<Rightarrow> bool" where
  "is_Run (Run cmd cwd) = True"
| "is_Run e = False"

fun is_Which :: "event \<Rightarrow> bool" where
  "is_Which (Which name) = True"
| "is_Which e = False"

fun is_print :: "event \<Rightarrow> bool" where
  "is_print (Stdout m) = True"
| "is_print (Stderr m) = True"
| "is_print e = False"

fun probes :: "string list \<Rightarrow> event \<Rightarrow> bool" where
  "probes names (Exists p) = (os_path_basename p \<in> set names)"
| "probes names (Access p) = (os_path_basename p \<in> set names)"
| "probes names (Which name) = (name \<in> set names)"
| "probes names e = False"

section \<open>Example environments\<close>

text \<open>
  A Maven project at \<^verbatim>\<open>/home/u/proj\<close> with an executable wrapper, a second \<^verbatim>\<open>pom.xml\<close>
  further up, the run started two levels below the project; the child returns 3.
\<close>

definition maven_env :: os_env where
  "maven_env =
     \<lparr> os_getcwd = ''/home/u/proj/src/main'',
       os_path_exists = (\<lambda>p. p \<in> set [''/home/pom.xml'', ''/home/u/proj/pom.xml'',
                                        ''/home/u/proj/mvnw'']),
       os_access_X_OK = (\<lambda>p. p \<in> set [''/home/u/proj/mvnw'']),
       shutil_which = (\<lambda>name. None),
       subprocess_run = (\<lambda>cmd cwd. Returncode 3) \<rparr>"

text \<open>A directory tree with no marker and no tool at all.\<close>

definition empty_env :: os_env where
  "empty_env =
     \<lparr> os_getcwd = ''/srv/data'',
       os_path_exists = (\<lambda>p. False),
       os_access_X_OK = (\<lambda>p. False),
       shutil_which = (\<lambda>name. None),
       subprocess_run = (\<lambda>cmd cwd. FileNotFoundError) \<rparr>"

text \<open>
  A Gradle project at \<^verbatim>\<open>/w/app\<close> started in the project directory. The wrapper
  \<^verbatim>\<open>gradlew\<close> is only on the search path, \<^verbatim>\<open>gradle\<close> is in the directory and on the search
  path. The child returns 0.
\<close>

definition gradle_env :: os_env where
  "gradle_env =
     \<lparr> os_getcwd = ''/w/app'',
       os_path_exists = (\<lambda>p. p \<in> set [''/w/app/build.gradle.kts'', ''/w/app/gradle'']),
       os_access_X_OK = (\<lambda>p. p \<in> set [''/w/app/gradle'']),
       shutil_which = (\<lambda>name. if name = ''gradlew'' then Some ''/usr/bin/gradlew''
                               else if name = ''gradle'' then Some ''/usr/bin/gradle''
                               else None),
       subprocess_run = (\<lambda>cmd cwd. Returncode 0) \<rparr>"

text \<open>A Maven project at \<^verbatim>\<open>/w/lib\<close> with no Maven tool anywhere; Gradle files and tools are
  present all the same.\<close>

definition maven_no_tool_env :: os_env where
  "maven_no_tool_env =
     \<lparr> os_getcwd = ''/w/lib'',
       os_path_exists = (\<lambda>p. p \<in> set [''/w/lib/pom.xml'', ''/w/lib/build.gradle'',
                                        ''/w/lib/gradlew'']),
       os_access_X_OK = (\<lambda>p. p \<in> set [''/w/lib/gradlew'']),
       shutil_which = (\<lambda>name. if name = ''gradle'' then Some ''/usr/bin/gradle'' else None),
       subprocess_run = (\<lambda>cmd cwd. Returncode 0) \<rparr>"

text \<open>A Gradle project at \<^verbatim>\<open>/w/kts\<close> with no Gradle tool anywhere.\<close>

definition gradle_no_tool_env :: os_env where
  "gradle_no_tool_env =
     \<lparr> os_getcwd = ''/w/kts'',
       os_path_exists = (\<lambda>p. p \<in> set [''/w/kts/build.gradle.kts'']),
       os_access_X_OK = (\<lambda>p. False),
       shutil_which = (\<lambda>name. None),
       subprocess_run = (\<lambda>cmd cwd. Returncode 0) \<rparr>"

text \<open>
  A Maven project at \<^verbatim>\<open>/w/win\<close> whose only wrapper is the script \<^verbatim>\<open>mvnw.cmd\<close>, present
  without the execute permission; nothing on the search path.
\<close>

definition cmd_script_env :: os_env where
  "cmd_script_env =
     \<lparr> os_getcwd = ''/w/win'',
       os_path_exists = (\<lambda>p. p \<in> set [''/w/win/pom.xml'', ''/w/win/mvnw.cmd'']),
       os_access_X_OK = (\<lambda>p. False),
       shutil_which = (\<lambda>name. None),
       subprocess_run = (\<lambda>cmd cwd. Returncode 0) \<rparr>"

text \<open>The Maven project of \<open>maven_env\<close>, the user interrupting the child while it runs.\<close>

definition interrupted_env :: os_env where
  "interrupted_env = maven_env \<lparr> subprocess_run := (\<lambda>cmd cwd. KeyboardInterrupt) \<rparr>"

section \<open>Lemmas\<close>

declare find_root_loop.simps [simp del]

subsection \<open>The walk of the root locator\<close>

lemma marker_scan_found:
  "fst (marker_scan env cur ms) = (\<exists>m\<in>set ms. os_path_exists env (os_path_join cur m))"
  by (induction ms) auto

lemma funpow_fixed: "f x = x \<Longrightarrow> (f ^^ n) x = x"
  by (induction n) auto

lemma find_root_loop_closest:
  "fst (marker_scan env ((os_path_dirname ^^ d) cur) markers) \<Longrightarrow>
   (\<forall>j<d. \<not> fst (marker_scan env ((os_path_dirname ^^ j) cur) markers)) \<Longrightarrow>
   find_root_loop env markers cur =
     (Some ((os_path_dirname ^^ d) cur),
      concat (map (\<lambda>j. snd (marker_scan env ((os_path_dirname ^^ j) cur) markers)) [0..<Suc d]))"
proof (induction d arbitrary: cur)
  case 0
  then show ?case
    by (simp add: find_root_loop.simps[of env markers cur])
next
  case (Suc d)
  from Suc.prems(2) have here: "\<not> fst (marker_scan env cur markers)"
    by (metis funpow_0 zero_less_Suc)
  have up: "os_path_dirname cur \<noteq> cur"
  proof
    assume "os_path_dirname cur = cur"
    then have "(os_path_dirname ^^ Suc d) cur = cur"
      by (rule funpow_fixed)
    with Suc.prems(1) here show False
      by simp
  qed
  have shift: "(os_path_dirname ^^ j) (os_path_dirname cur) = (os_path_dirname ^^ Suc j) cur" for j
    by (simp add: funpow_swap1)
  have a: "fst (marker_scan env ((os_path_dirname ^^ d) (os_path_dirname cur)) markers)"
    using Suc.prems(1) by (simp only: shift)
  have b: "\<forall>j<d. \<not> fst (marker_scan env ((os_path_dirname ^^ j) (os_path_dirname cur)) markers)"
    using Suc.prems(2) by (simp only: shift) auto
  have rec: "find_root_loop env markers (os_path_dirname cur) =
     (Some ((os_path_dirname ^^ d) (os_path_dirname cur)),
      concat (map (\<lambda>j. snd (marker_scan env ((os_path_dirname ^^ j) (os_path_dirname cur)) markers))
                [0..<Suc d]))"
    by (rule Suc.IH[OF a b])
  have unroll: "find_root_loop env markers cur =
      (fst (find_root_loop env markers (os_path_dirname cur)),
       snd (marker_scan env cur markers) @ snd (find_root_loop env markers (os_path_dirname cur)))"
    using here up by (simp add: find_root_loop.simps[of env markers cur])
  have split_upt: "map (\<lambda>j. snd (marker_scan env ((os_path_dirname ^^ j) cur) markers)) [0..<Suc (Suc d)]
     = snd (marker_scan env cur markers)
       # map (\<lambda>j. snd (marker_scan env ((os_path_dirname ^^ j) (os_path_dirname cur)) markers)) [0..<Suc d]"
    by (simp only: map_upt_Suc[of _ "Suc d"] shift funpow_0)
  show ?case
    by (simp only: unroll rec split_upt shift fst_conv snd_conv concat.simps)
qed

lemma find_root_loop_none:
  "(\<forall>d. \<not> fst (marker_scan env ((os_path_dirname ^^ d) cur) markers)) \<Longrightarrow>
   fst (find_root_loop env markers cur) = None"
proof (induction env markers cur rule: find_root_loop.induct)
  case (1 env markers cur)
  from "1.prems" have here: "\<not> fst (marker_scan env cur markers)"
    by (metis funpow_0)
  show ?case
  proof (cases "os_path_dirname cur = cur")
    case True
    with here show ?thesis
      by (simp add: find_root_loop.simps[of env markers cur])
  next
    case False
    have "\<forall>d. \<not> fst (marker_scan env ((os_path_dirname ^^ d) (os_path_dirname cur)) markers)"
    proof
      fix d
      from "1.prems" have "\<not> fst (marker_scan env ((os_path_dirname ^^ Suc d) cur) markers)"
        by blast
      then show "\<not> fst (marker_scan env ((os_path_dirname ^^ d) (os_path_dirname cur)) markers)"
        by (simp add: funpow_swap1)
    qed
    with "1.IH"[OF here False] have "fst (find_root_loop env markers (os_path_dirname cur)) = None"
      by simp
    with here False show ?thesis
      by (simp add: find_root_loop.simps[of env markers cur])
  qed
qed

lemma find_root_fuel_enough:
  "length cur < n \<Longrightarrow> find_root_fuel n env markers cur = Some (find_root_loop env markers cur)"
proof (induction n arbitrary: cur)
  case 0
  then show ?case by simp
next
  case (Suc n)
  show ?case
  proof (cases "\<not> fst (marker_scan env cur markers) \<and> os_path_dirname cur \<noteq> cur")
    case True
    then have "length (os_path_dirname cur) < length cur"
      by (simp add: dirname_shorter)
    with Suc.prems have "length (os_path_dirname cur) < n"
      by simp
    then have "find_root_fuel n env markers (os_path_dirname cur)
                 = Some (find_root_loop env markers (os_path_dirname cur))"
      by (rule Suc.IH)
    with True show ?thesis
      by (simp add: find_root_loop.simps[of env markers cur] split: prod.splits)
  next
    case False
    then show ?thesis
      by (auto simp add: find_root_loop.simps[of env markers cur])
  qed
qed

subsection \<open>Paths\<close>

lemma basename_join:
  assumes nb: "sep \<notin> set b"
  shows "os_path_basename (os_path_join a b) = b"
proof -
  from nb have nabs: "\<not> os_path_isabs b"
    by (cases b) (auto simp: os_path_isabs_def)
  have t0: "takeWhile (\<lambda>c. c \<noteq> sep) (rev b) = rev b"
    using nb by (auto simp: takeWhile_eq_all_conv)
  have tw: "takeWhile (\<lambda>c. c \<noteq> sep) (rev b @ sep # ys) = rev b" for ys
  proof -
    have "takeWhile (\<lambda>c. c \<noteq> sep) (rev b @ sep # ys)
            = rev b @ takeWhile (\<lambda>c. c \<noteq> sep) (sep # ys)"
    proof (rule takeWhile_append2)
      fix c assume "c \<in> set (rev b)"
      with nb show "c \<noteq> sep" by auto
    qed
    then show ?thesis by simp
  qed
  show ?thesis
  proof (cases "a = []")
    case True
    with nabs show ?thesis
      by (simp add: os_path_join_def os_path_basename_def t0)
  next
    case False
    then obtain xs x where a: "a = xs @ [x]"
      by (metis rev_exhaust)
    show ?thesis
    proof (cases "x = sep")
      case True
      with a nabs show ?thesis
        by (simp add: os_path_join_def os_path_basename_def tw)
    next
      case False
      with a nabs show ?thesis
        by (simp add: os_path_join_def os_path_basename_def tw)
    qed
  qed
qed

text \<open>
  An absolute path stays absolute under \<open>os_path_dirname\<close>, and \<open>os_path_abspath\<close> is absolute
  when the working directory is (as \<^verbatim>\<open>os.getcwd()\<close> always is). So a root that the locator
  returns is never the empty string, and the truth tests \<^verbatim>\<open>if mroot:\<close> and \<^verbatim>\<open>if groot:\<close> of
  the orchestrators only tell a located root from \<open>None\<close>.
\<close>

lemma isabs_Cons: "os_path_isabs p = (\<exists>r. p = sep # r)"
  by (cases p) (auto simp: os_path_isabs_def)

lemma prefix_keeps_head:
  "prefix xs (c # r) \<Longrightarrow> xs \<noteq> [] \<Longrightarrow> \<exists>t. xs = c # t"
  by (cases xs) auto

lemma dirname_nonempty:
  assumes "sep \<in> set p"
  shows "os_path_dirname p \<noteq> []"
proof -
  define head where "head = rev (dropWhile (\<lambda>c. c \<noteq> sep) (rev p))"
  from assms have hne: "head \<noteq> []"
    by (auto simp add: head_def dropWhile_eq_Nil_conv)
  show ?thesis
  proof (cases "head = replicate (length head) sep")
    case True
    with hne show ?thesis
      by (simp add: os_path_dirname_def Let_def head_def[symmetric])
  next
    case False
    have "dropWhile (\<lambda>c. c = sep) (rev head) \<noteq> []"
    proof
      assume "dropWhile (\<lambda>c. c = sep) (rev head) = []"
      then have "\<forall>x\<in>set head. x = sep"
        by (simp add: dropWhile_eq_Nil_conv)
      then have "replicate (length head) sep = head"
        by (rule replicate_length_same)
      with False show False
        by simp
    qed
    with False hne show ?thesis
      by (simp add: os_path_dirname_def Let_def head_def[symmetric])
  qed
qed

lemma dirname_isabs:
  assumes "os_path_isabs p"
  shows "os_path_isabs (os_path_dirname p)"
proof -
  from assms obtain r where p: "p = sep # r"
    by (auto simp: isabs_Cons)
  then have "sep \<in> set p"
    by simp
  then have ne: "os_path_dirname p \<noteq> []"
    by (rule dirname_nonempty)
  have "prefix (os_path_dirname p) (sep # r)"
    using prefix_dirname[of p] by (simp only: p)
  from prefix_keeps_head[OF this] ne p show ?thesis
    by (simp only: isabs_Cons) blast
qed

lemma normpath_isabs:
  assumes "os_path_isabs p"
  shows "os_path_isabs (os_path_normpath p)"
proof -
  from assms have ne: "p \<noteq> []"
    by (auto simp: isabs_Cons)
  from assms have "initial_slashes p = 1 \<or> initial_slashes p = 2"
    by (simp add: initial_slashes_def)
  then show ?thesis
  proof
    assume "initial_slashes p = 1"
    with ne show ?thesis
      by (simp add: os_path_normpath_def Let_def os_path_isabs_def)
  next
    assume "initial_slashes p = 2"
    with ne show ?thesis
      by (simp add: os_path_normpath_def Let_def os_path_isabs_def numeral_2_eq_2)
  qed
qed

lemma abspath_isabs:
  assumes "os_path_isabs (os_getcwd env)"
  shows "os_path_isabs (os_path_abspath env p)"
proof (cases "os_path_isabs p")
  case True
  then show ?thesis
    by (simp add: os_path_abspath_def normpath_isabs)
next
  case False
  from assms obtain r where "os_getcwd env = sep # r"
    by (auto simp: isabs_Cons)
  with False have "os_path_isabs (os_path_join (os_getcwd env) p)"
    by (simp add: os_path_join_def os_path_isabs_def)
  with False show ?thesis
    by (simp add: os_path_abspath_def normpath_isabs)
qed

lemma find_root_loop_isabs:
  "os_path_isabs cur \<Longrightarrow> fst (find_root_loop env ms cur) = Some r \<Longrightarrow> os_path_isabs r"
proof (induction env ms cur rule: find_root_loop.induct)
  case (1 env markers cur)
  show ?case
  proof (cases "\<not> fst (marker_scan env cur markers) \<and> os_path_dirname cur \<noteq> cur")
    case True
    with "1.prems"(2) have "fst (find_root_loop env markers (os_path_dirname cur)) = Some r"
      by (simp add: find_root_loop.simps[of env markers cur])
    with True "1.IH" dirname_isabs[OF "1.prems"(1)] show ?thesis
      by blast
  next
    case False
    then have "fst (find_root_loop env markers cur) = Some cur
               \<or> fst (find_root_loop env markers cur) = None"
      by (auto simp add: find_root_loop.simps[of env markers cur])
    with "1.prems" show ?thesis
      by auto
  qed
qed

lemma located_root_nonempty:
  assumes "os_path_isabs (os_getcwd env)"
  shows "fst (test_find_project_root_with env ms start) = Some r \<Longrightarrow> r \<noteq> []"
    and "fst (spotless_find_project_root_with env ms) = Some r \<Longrightarrow> r \<noteq> []"
  using find_root_loop_isabs[OF abspath_isabs[OF assms]]
  by (auto simp: test_find_project_root_with_def spotless_find_project_root_with_def isabs_Cons)

subsection \<open>The events of each function\<close>

lemma marker_scan_events:
  "e \<in> set (snd (marker_scan env cur ms)) \<Longrightarrow> \<exists>m\<in>set ms. e = Exists (os_path_join cur m)"
  by (induction ms) (auto split: if_splits)

lemma find_root_loop_events:
  "e \<in> set (snd (find_root_loop env ms cur)) \<Longrightarrow> \<exists>a. \<exists>m\<in>set ms. e = Exists (os_path_join a m)"
proof (induction env ms cur rule: find_root_loop.induct)
  case (1 env markers cur)
  show ?case
  proof (cases "\<not> fst (marker_scan env cur markers) \<and> os_path_dirname cur \<noteq> cur")
    case True
    with "1.prems" have "e \<in> set (snd (marker_scan env cur markers))
        \<or> e \<in> set (snd (find_root_loop env markers (os_path_dirname cur)))"
      by (simp add: find_root_loop.simps[of env markers cur])
    then show ?thesis
    proof
      assume "e \<in> set (snd (marker_scan env cur markers))"
      then show ?thesis by (blast dest: marker_scan_events)
    next
      assume "e \<in> set (snd (find_root_loop env markers (os_path_dirname cur)))"
      with True "1.IH" show ?thesis by blast
    qed
  next
    case False
    with "1.prems" have "e \<in> set (snd (marker_scan env cur markers))"
      by (auto simp add: find_root_loop.simps[of env markers cur] split: if_splits)
    then show ?thesis by (blast dest: marker_scan_events)
  qed
qed

lemma test_which_local_events:
  "e \<in> set (snd (test_which_local env d names)) \<Longrightarrow>
   \<exists>n\<in>set names. e = Exists (os_path_join d n) \<or> e = Access (os_path_join d n)"
  by (induction names) (auto simp: Let_def split: if_splits)

lemma spotless_which_local_events:
  "e \<in> set (snd (spotless_which_local env d names)) \<Longrightarrow>
   \<exists>n\<in>set names. e = Exists (os_path_join d n) \<or> e = Access (os_path_join d n)"
  by (induction names) (auto simp: Let_def split: if_splits)

lemma which_on_path_events:
  "e \<in> set (snd (which_on_path env names)) \<Longrightarrow> \<exists>n\<in>set names. e = Which n"
  by (induction names) (auto split: if_splits)

lemma test_which_in_dir_trace:
  "snd (test_which_in_dir env names d) =
     snd (test_which_local env d names)
       @ (if fst (test_which_local env d names) = None then snd (which_on_path env names) else [])"
  by (simp add: test_which_in_dir_def split: prod.splits option.splits)

lemma spotless_which_in_dir_trace:
  "snd (spotless_which_in_dir env names d) =
     snd (spotless_which_local env d names)
       @ (if fst (spotless_which_local env d names) = None then snd (which_on_path env names) else [])"
  by (simp add: spotless_which_in_dir_def split: prod.splits option.splits)

lemma test_which_in_dir_events:
  "e \<in> set (snd (test_which_in_dir env names d)) \<Longrightarrow>
   \<exists>n\<in>set names. e = Exists (os_path_join d n) \<or> e = Access (os_path_join d n) \<or> e = Which n"
  by (auto simp: test_which_in_dir_trace split: if_splits
           dest: test_which_local_events which_on_path_events)

lemma spotless_which_in_dir_events:
  "e \<in> set (snd (spotless_which_in_dir env names d)) \<Longrightarrow>
   \<exists>n\<in>set names. e = Exists (os_path_join d n) \<or> e = Access (os_path_join d n) \<or> e = Which n"
  by (auto simp: spotless_which_in_dir_trace split: if_splits
           dest: spotless_which_local_events which_on_path_events)

text \<open>What the queries are about: files and commands with the names looked for.\<close>

lemma find_root_loop_probes:
  assumes "\<forall>m\<in>set ms. sep \<notin> set m" and "e \<in> set (snd (find_root_loop env ms cur))"
  shows "probes ms e \<and> \<not> is_Run e \<and> \<not> is_print e"
proof -
  from assms(2) obtain a m where "m \<in> set ms" "e = Exists (os_path_join a m)"
    by (blast dest: find_root_loop_events)
  with assms(1) show ?thesis
    by (simp add: basename_join)
qed

lemma test_which_in_dir_probes:
  assumes "\<forall>n\<in>set names. sep \<notin> set n" and "e \<in> set (snd (test_which_in_dir env names d))"
  shows "probes names e \<and> \<not> is_Run e \<and> \<not> is_print e"
proof -
  from assms(2) obtain n where "n \<in> set names"
      "e = Exists (os_path_join d n) \<or> e = Access (os_path_join d n) \<or> e = Which n"
    by (blast dest: test_which_in_dir_events)
  with assms(1) show ?thesis
    by (auto simp add: basename_join)
qed

lemma spotless_which_in_dir_probes:
  assumes "\<forall>n\<in>set names. sep \<notin> set n" and "e \<in> set (snd (spotless_which_in_dir env names d))"
  shows "probes names e \<and> \<not> is_Run e \<and> \<not> is_print e"
proof -
  from assms(2) obtain n where "n \<in> set names"
      "e = Exists (os_path_join d n) \<or> e = Access (os_path_join d n) \<or> e = Which n"
    by (blast dest: spotless_which_in_dir_events)
  with assms(1) show ?thesis
    by (auto simp add: basename_join)
qed

lemma no_sep_names:
  "\<forall>m\<in>set MAVEN_MARKERS. sep \<notin> set m" "\<forall>m\<in>set GRADLE_MARKERS. sep \<notin> set m"
  "\<forall>m\<in>set MAVEN_WRAPPERS. sep \<notin> set m" "\<forall>m\<in>set GRADLE_WRAPPERS. sep \<notin> set m"
  by (simp_all add: MAVEN_MARKERS_def GRADLE_MARKERS_def MAVEN_WRAPPERS_def GRADLE_WRAPPERS_def)

subsection \<open>The result of the in-directory pass\<close>

lemma test_which_local_find:
  "fst (test_which_local env d names) =
     map_option (os_path_join d) (List.find (\<lambda>n. test_invocable env (os_path_join d n)) names)"
  by (induction names) (auto simp: Let_def test_invocable_def)

lemma spotless_which_local_find:
  "fst (spotless_which_local env d names) =
     map_option (os_path_join d) (List.find (\<lambda>n. spotless_invocable env (os_path_join d n)) names)"
  by (induction names) (auto simp: Let_def spotless_invocable_def)

lemma test_which_local_no_Which:
  "e \<in> set (snd (test_which_local env d names)) \<Longrightarrow> \<not> is_Which e"
  by (auto dest: test_which_local_events)

lemma spotless_which_local_no_Which:
  "e \<in> set (snd (spotless_which_local env d names)) \<Longrightarrow> \<not> is_Which e"
  by (auto dest: spotless_which_local_events)

lemma find_Some_ex:
  "n \<in> set names \<Longrightarrow> P n \<Longrightarrow> \<exists>n'. List.find P names = Some n'"
  by (cases "List.find P names") (auto simp: find_None_iff)

lemma test_which_in_dir_local:
  "fst (test_which_local env d names) = Some c \<Longrightarrow>
   test_which_in_dir env names d = test_which_local env d names"
  by (cases "test_which_local env d names") (simp add: test_which_in_dir_def)

lemma spotless_which_in_dir_local:
  "fst (spotless_which_local env d names) = Some c \<Longrightarrow>
   spotless_which_in_dir env names d = spotless_which_local env d names"
  by (cases "spotless_which_local env d names") (simp add: spotless_which_in_dir_def)

lemma which_on_path_only_Which:
  "e \<in> set (snd (which_on_path env names)) \<Longrightarrow> is_Which e"
  by (auto dest: which_on_path_events)

text \<open>Locating a root and resolving a tool never call \<^verbatim>\<open>subprocess.run\<close>.\<close>

lemma no_Run_find_root_loop: "Run c w \<notin> set (snd (find_root_loop env ms cur))"
  by (auto dest: find_root_loop_events)

lemma no_Run_test_which: "Run c w \<notin> set (snd (test_which_in_dir env names d))"
  by (auto dest: test_which_in_dir_events)

lemma no_Run_spotless_which: "Run c w \<notin> set (snd (spotless_which_in_dir env names d))"
  by (auto dest: spotless_which_in_dir_events)

lemma is_Run_find_root_loop: "e \<in> set (snd (find_root_loop env ms cur)) \<Longrightarrow> \<not> is_Run e"
  by (auto dest: find_root_loop_events)

lemma is_Run_test_which: "e \<in> set (snd (test_which_in_dir env names d)) \<Longrightarrow> \<not> is_Run e"
  by (auto dest: test_which_in_dir_events)

lemma is_Run_spotless_which: "e \<in> set (snd (spotless_which_in_dir env names d)) \<Longrightarrow> \<not> is_Run e"
  by (auto dest: spotless_which_in_dir_events)

lemma test_run_cmd_Run:
  "Run c w \<in> set (snd (test_run_cmd env cmd cwd)) \<Longrightarrow> c = cmd \<and> w = cwd"
  by (auto simp: test_run_cmd_def split: run_result.splits list.splits)

lemma spotless_run_cmd_Run:
  "Run c w \<in> set (snd (spotless_run_cmd env cmd cwd)) \<Longrightarrow> c = cmd \<and> w = cwd"
  by (auto simp: spotless_run_cmd_def split: run_result.splits list.splits)

lemma test_run_cmd_completed:
  "subprocess_run env cmd cwd = Returncode rc \<Longrightarrow> fst (test_run_cmd env cmd cwd) = Inr rc"
  by (simp add: test_run_cmd_def)

lemma spotless_run_cmd_completed:
  "subprocess_run env cmd cwd = Returncode rc \<Longrightarrow> fst (spotless_run_cmd env cmd cwd) = Inr rc"
  by (simp add: spotless_run_cmd_def)

subsection \<open>The branches of the orchestrators\<close>

lemma detect_maven_no_tool:
  assumes "fst (test_find_project_root_with env MAVEN_MARKERS start) = Some mroot" "mroot \<noteq> []"
    and "\<not> truthy (fst (test_which_in_dir env MAVEN_WRAPPERS mroot))"
  shows "detect_and_run_tests env start task dry_run =
     (Inr 127,
      snd (test_find_project_root_with env MAVEN_MARKERS start)
        @ Stdout (Projeto_Maven_detectado_em mroot)
        # snd (test_which_in_dir env MAVEN_WRAPPERS mroot)
        @ [Stderr Maven_nao_encontrado])"
  using assms by (simp add: detect_and_run_tests_def Let_def case_prod_beta)

lemma detect_gradle_no_tool:
  assumes "\<not> truthy (fst (test_find_project_root_with env MAVEN_MARKERS start))"
    and "fst (test_find_project_root_with env GRADLE_MARKERS start) = Some groot" "groot \<noteq> []"
    and "\<not> truthy (fst (test_which_in_dir env GRADLE_WRAPPERS groot))"
  shows "detect_and_run_tests env start task dry_run =
     (Inr 127,
      snd (test_find_project_root_with env MAVEN_MARKERS start)
        @ snd (test_find_project_root_with env GRADLE_MARKERS start)
        @ Stdout (Projeto_Gradle_detectado_em groot)
        # snd (test_which_in_dir env GRADLE_WRAPPERS groot)
        @ [Stderr Gradle_nao_encontrado])"
  using assms by (simp add: detect_and_run_tests_def Let_def case_prod_beta)

lemma detect_maven_dry_run:
  assumes "fst (test_find_project_root_with env MAVEN_MARKERS start) = Some mroot" "mroot \<noteq> []"
    and "fst (test_which_in_dir env MAVEN_WRAPPERS mroot) = Some mvn" "mvn \<noteq> []"
  shows "detect_and_run_tests env start task True =
     (Inr 0,
      snd (test_find_project_root_with env MAVEN_MARKERS start)
        @ Stdout (Projeto_Maven_detectado_em mroot)
        # snd (test_which_in_dir env MAVEN_WRAPPERS mroot)
        @ [Stdout (Dry_run_Comando [mvn, task] mroot)])"
  using assms by (simp add: detect_and_run_tests_def Let_def case_prod_beta)

lemma detect_gradle_dry_run:
  assumes "\<not> truthy (fst (test_find_project_root_with env MAVEN_MARKERS start))"
    and "fst (test_find_project_root_with env GRADLE_MARKERS start) = Some groot" "groot \<noteq> []"
    and "fst (test_which_in_dir env GRADLE_WRAPPERS groot) = Some gradle" "gradle \<noteq> []"
  shows "detect_and_run_tests env start task True =
     (Inr 0,
      snd (test_find_project_root_with env MAVEN_MARKERS start)
        @ snd (test_find_project_root_with env GRADLE_MARKERS start)
        @ Stdout (Projeto_Gradle_detectado_em groot)
        # snd (test_which_in_dir env GRADLE_WRAPPERS groot)
        @ [Stdout (Dry_run_Comando [gradle, task] groot)])"
  using assms by (simp add: detect_and_run_tests_def Let_def case_prod_beta)

lemma detect_nothing:
  assumes "fst (test_find_project_root_with env MAVEN_MARKERS start) = None"
    and "fst (test_find_project_root_with env GRADLE_MARKERS start) = None"
  shows "detect_and_run_tests env start task dry_run =
     (Inr 0,
      snd (test_find_project_root_with env MAVEN_MARKERS start)
        @ snd (test_find_project_root_with env GRADLE_MARKERS start)
        @ [Stdout (Nenhum_projeto_a_partir_de (start_or_cwd env start))])"
  using assms by (simp add: detect_and_run_tests_def Let_def case_prod_beta)

lemma spotless_maven_no_tool:
  assumes "fst (spotless_find_project_root_with env MAVEN_MARKERS) = Some mroot" "mroot \<noteq> []"
    and "\<not> truthy (fst (spotless_which_in_dir env MAVEN_WRAPPERS mroot))"
  shows "spotless_main env =
     (Inr 127,
      snd (spotless_find_project_root_with env MAVEN_MARKERS)
        @ Stdout (Projeto_Maven_detectado_em mroot)
        # snd (spotless_which_in_dir env MAVEN_WRAPPERS mroot)
        @ [Stderr Maven_nao_encontrado])"
  using assms by (simp add: spotless_main_def Let_def case_prod_beta)

lemma spotless_nothing:
  assumes "fst (spotless_find_project_root_with env MAVEN_MARKERS) = None"
    and "fst (spotless_find_project_root_with env GRADLE_MARKERS) = None"
  shows "spotless_main env =
     (Inr 0,
      snd (spotless_find_project_root_with env MAVEN_MARKERS)
        @ snd (spotless_find_project_root_with env GRADLE_MARKERS)
        @ [Stdout Nenhum_projeto_nenhuma_acao])"
  using assms by (simp add: spotless_main_def Let_def case_prod_beta)

lemma maven_side_event:
  "probes MAVEN_MARKERS e \<or> probes MAVEN_WRAPPERS e \<Longrightarrow>
   \<not> probes (GRADLE_MARKERS @ GRADLE_WRAPPERS) e"
  by (cases e)
     (auto simp: MAVEN_MARKERS_def GRADLE_MARKERS_def MAVEN_WRAPPERS_def GRADLE_WRAPPERS_def)

lemma maven_find_event:
  assumes "e \<in> set (snd (find_root_loop env MAVEN_MARKERS cur))"
  shows "\<not> is_Run e \<and> \<not> probes (GRADLE_MARKERS @ GRADLE_WRAPPERS) e"
  using find_root_loop_probes[OF no_sep_names(1) assms] maven_side_event[of e] by blast

lemma maven_test_which_event:
  assumes "e \<in> set (snd (test_which_in_dir env MAVEN_WRAPPERS d))"
  shows "\<not> is_Run e \<and> \<not> probes (GRADLE_MARKERS @ GRADLE_WRAPPERS) e"
  using test_which_in_dir_probes[OF no_sep_names(3) assms] maven_side_event[of e] by blast

lemma maven_spotless_which_event:
  assumes "e \<in> set (snd (spotless_which_in_dir env MAVEN_WRAPPERS d))"
  shows "\<not> is_Run e \<and> \<not> probes (GRADLE_MARKERS @ GRADLE_WRAPPERS) e"
  using spotless_which_in_dir_probes[OF no_sep_names(3) assms] maven_side_event[of e] by blast

lemma detect_Run:
  assumes "Run cmd cwd \<in> set (snd (detect_and_run_tests env start task dry_run))"
  shows "fst (detect_and_run_tests env start task dry_run) = fst (test_run_cmd env cmd cwd)"
  using assms
  by (auto simp: detect_and_run_tests_def Let_def case_prod_beta test_find_project_root_with_def
                 no_Run_find_root_loop no_Run_test_which
           split: if_splits dest!: test_run_cmd_Run)

lemma spotless_Run:
  assumes "Run cmd cwd \<in> set (snd (spotless_main env))"
  shows "fst (spotless_main env) = fst (spotless_run_cmd env cmd cwd)"
  using assms
  by (auto simp: spotless_main_def Let_def case_prod_beta spotless_find_project_root_with_def
                 no_Run_find_root_loop no_Run_spotless_which
           split: if_splits dest!: spotless_run_cmd_Run)

section \<open>The claims\<close>

subsection \<open>Root locator\<close>

text \<open>
  Claim C1. The closest ancestor wins. Let \<open>cur\<close> be the absolute starting directory and
  \<open>(os_path_dirname ^^ d) cur\<close> its ancestor \<open>d\<close> levels up. If some marker exists directly
  under that ancestor and no marker exists under any ancestor at a depth below \<open>d\<close>, the
  loop of \<^verbatim>\<open>find_project_root_with\<close> returns exactly that ancestor, and its queries are
  those of the directories at depths \<open>0, ..., d\<close> in this order and nothing else: the walk is
  strictly upward. This holds for \<^verbatim>\<open>find_project_root_with\<close> of both scripts.
\<close>

theorem closest_ancestor_wins:
  assumes "\<exists>m\<in>set markers. os_path_exists env (os_path_join ((os_path_dirname ^^ d) cur) m)"
    and "\<forall>j<d. \<forall>m\<in>set markers.
           \<not> os_path_exists env (os_path_join ((os_path_dirname ^^ j) cur) m)"
  shows "find_root_loop env markers cur =
           (Some ((os_path_dirname ^^ d) cur),
            concat (map (\<lambda>j. snd (marker_scan env ((os_path_dirname ^^ j) cur) markers))
                        [0..<Suc d]))
       \<and> (cur = os_path_abspath env (start_or_cwd env start) \<longrightarrow>
            fst (test_find_project_root_with env markers start)
              = Some ((os_path_dirname ^^ d) cur))
       \<and> (cur = os_path_abspath env (os_getcwd env) \<longrightarrow>
            fst (spotless_find_project_root_with env markers)
              = Some ((os_path_dirname ^^ d) cur))"
proof -
  from assms(1) have a: "fst (marker_scan env ((os_path_dirname ^^ d) cur) markers)"
    by (simp add: marker_scan_found)
  from assms(2) have b: "\<forall>j<d. \<not> fst (marker_scan env ((os_path_dirname ^^ j) cur) markers)"
    by (simp add: marker_scan_found)
  have loop: "find_root_loop env markers cur =
           (Some ((os_path_dirname ^^ d) cur),
            concat (map (\<lambda>j. snd (marker_scan env ((os_path_dirname ^^ j) cur) markers))
                        [0..<Suc d]))"
    by (rule find_root_loop_closest[OF a b])
  show ?thesis
  proof (intro conjI impI)
    show "find_root_loop env markers cur =
           (Some ((os_path_dirname ^^ d) cur),
            concat (map (\<lambda>j. snd (marker_scan env ((os_path_dirname ^^ j) cur) markers))
                        [0..<Suc d]))"
      by (rule loop)
  next
    assume c: "cur = os_path_abspath env (start_or_cwd env start)"
    show "fst (test_find_project_root_with env markers start) = Some ((os_path_dirname ^^ d) cur)"
      unfolding test_find_project_root_with_def c[symmetric] by (simp only: loop fst_conv)
  next
    assume c: "cur = os_path_abspath env (os_getcwd env)"
    show "fst (spotless_find_project_root_with env markers) = Some ((os_path_dirname ^^ d) cur)"
      unfolding spotless_find_project_root_with_def c[symmetric] by (simp only: loop fst_conv)
  qed
qed

text \<open>
  In \<open>maven_env\<close> the run starts in \<^verbatim>\<open>/home/u/proj/src/main\<close>; \<^verbatim>\<open>pom.xml\<close> exists two
  levels up and again in \<^verbatim>\<open>/home\<close>. The nearer one is returned.
\<close>

theorem closest_ancestor_wins_witness:
  "os_path_exists maven_env ''/home/pom.xml''
   \<and> fst (test_find_project_root_with maven_env MAVEN_MARKERS None) = Some ''/home/u/proj''
   \<and> fst (spotless_find_project_root_with maven_env MAVEN_MARKERS) = Some ''/home/u/proj''"
proof -
  let ?cur = "''/home/u/proj/src/main''"
  have up: "(os_path_dirname ^^ 2) ?cur = ''/home/u/proj''"
    by code_simp
  have h1: "\<exists>m\<in>set MAVEN_MARKERS.
              os_path_exists maven_env (os_path_join ((os_path_dirname ^^ 2) ?cur) m)"
    by code_simp
  have h2: "\<forall>j<2. \<forall>m\<in>set MAVEN_MARKERS.
              \<not> os_path_exists maven_env (os_path_join ((os_path_dirname ^^ j) ?cur) m)"
    by (simp add: numeral_2_eq_2 All_less_Suc MAVEN_MARKERS_def maven_env_def
                  os_path_dirname_def os_path_join_def os_path_isabs_def)
  have c1: "?cur = os_path_abspath maven_env (start_or_cwd maven_env None)"
    by code_simp
  have c2: "?cur = os_path_abspath maven_env (os_getcwd maven_env)"
    by code_simp
  have top: "os_path_exists maven_env ''/home/pom.xml''"
    by code_simp
  note w = closest_ancestor_wins[OF h1 h2, where start = None, unfolded up]
  from w c1 c2 top show ?thesis
    by blast
qed

text \<open>
  Claim C9. \<^verbatim>\<open>find_project_root_with\<close> terminates for every starting path. Each iteration
  replaces \<open>cur\<close> by \<open>os_path_dirname cur\<close>, which is strictly shorter unless it equals \<open>cur\<close>;
  so a budget of \<open>length cur + 1\<close> iterations always suffices for the loop to return, with
  the result of \<open>find_root_loop\<close>. Where \<open>os_path_dirname cur = cur\<close> and no marker is found
  under \<open>cur\<close>, the loop returns \<open>None\<close>.
\<close>

theorem find_project_root_with_terminates:
  "(os_path_dirname cur \<noteq> cur \<longrightarrow> length (os_path_dirname cur) < length cur)
   \<and> find_root_fuel (Suc (length cur)) env markers cur = Some (find_root_loop env markers cur)
   \<and> (os_path_dirname cur = cur \<and> \<not> fst (marker_scan env cur markers) \<longrightarrow>
        find_root_loop env markers cur = (None, snd (marker_scan env cur markers)))
   \<and> (cur = os_path_abspath env (start_or_cwd env start) \<longrightarrow>
        find_root_fuel (Suc (length cur)) env markers cur
          = Some (test_find_project_root_with env markers start))
   \<and> (cur = os_path_abspath env (os_getcwd env) \<longrightarrow>
        find_root_fuel (Suc (length cur)) env markers cur
          = Some (spotless_find_project_root_with env markers))"
proof (intro conjI impI)
  assume "os_path_dirname cur \<noteq> cur"
  then show "length (os_path_dirname cur) < length cur"
    by (rule dirname_shorter)
next
  show "find_root_fuel (Suc (length cur)) env markers cur = Some (find_root_loop env markers cur)"
    by (rule find_root_fuel_enough) simp
next
  assume "os_path_dirname cur = cur \<and> \<not> fst (marker_scan env cur markers)"
  then show "find_root_loop env markers cur = (None, snd (marker_scan env cur markers))"
    by (simp add: find_root_loop.simps[of env markers cur])
next
  assume c: "cur = os_path_abspath env (start_or_cwd env start)"
  show "find_root_fuel (Suc (length cur)) env markers cur
          = Some (test_find_project_root_with env markers start)"
    unfolding test_find_project_root_with_def c[symmetric]
    by (rule find_root_fuel_enough) simp
next
  assume c: "cur = os_path_abspath env (os_getcwd env)"
  show "find_root_fuel (Suc (length cur)) env markers cur
          = Some (spotless_find_project_root_with env markers)"
    unfolding spotless_find_project_root_with_def c[symmetric]
    by (rule find_root_fuel_enough) simp
qed

text \<open>
  From \<^verbatim>\<open>/srv/data\<close> in \<open>empty_env\<close> ten iterations are enough; at \<^verbatim>\<open>/\<close> the loop stops
  with \<open>None\<close> after asking for the two Gradle markers there.
\<close>

theorem find_project_root_with_terminates_witness:
  "length (os_path_dirname ''/srv/data'') < length ''/srv/data''
   \<and> find_root_fuel 10 empty_env GRADLE_MARKERS ''/srv/data''
       = Some (test_find_project_root_with empty_env GRADLE_MARKERS None)
   \<and> find_root_fuel 10 empty_env GRADLE_MARKERS ''/srv/data''
       = Some (spotless_find_project_root_with empty_env GRADLE_MARKERS)
   \<and> find_root_loop empty_env GRADLE_MARKERS ''/''
       = (None, [Exists ''/build.gradle'', Exists ''/build.gradle.kts''])"
proof -
  have n: "Suc (length ''/srv/data'') = 10"
    by simp
  have d: "os_path_dirname ''/srv/data'' \<noteq> ''/srv/data''"
    by code_simp
  have c1: "''/srv/data'' = os_path_abspath empty_env (start_or_cwd empty_env None)"
    by code_simp
  have c2: "''/srv/data'' = os_path_abspath empty_env (os_getcwd empty_env)"
    by code_simp
  have r: "os_path_dirname ''/'' = ''/'' \<and> \<not> fst (marker_scan empty_env ''/'' GRADLE_MARKERS)"
    by code_simp
  have s: "snd (marker_scan empty_env ''/'' GRADLE_MARKERS)
             = [Exists ''/build.gradle'', Exists ''/build.gradle.kts'']"
    by code_simp
  note w1 = find_project_root_with_terminates
              [where cur = "''/srv/data''" and env = empty_env and markers = GRADLE_MARKERS
                 and start = None, unfolded n]
  note w2 = find_project_root_with_terminates
              [where cur = "''/''" and env = empty_env and markers = GRADLE_MARKERS
                 and start = None, unfolded s]
  from w1 w2 d c1 c2 r show ?thesis
    by blast
qed

text \<open>
  Claim C6. When no marker of either kind exists under any directory on the way from the
  starting directory up to the root, \<^verbatim>\<open>find_project_root_with\<close> returns \<open>None\<close> for the Maven
  markers and for the Gradle markers, and the program returns 0 without any call of
  \<^verbatim>\<open>subprocess.run\<close>. Stated for \<^verbatim>\<open>test.py\<close> and for \<^verbatim>\<open>spotless_apply.py\<close>.
\<close>

theorem no_marker_no_action:
  assumes none: "\<forall>d. \<forall>m\<in>set (MAVEN_MARKERS @ GRADLE_MARKERS).
             \<not> os_path_exists env (os_path_join ((os_path_dirname ^^ d) cur) m)"
  shows "(cur = os_path_abspath env (start_or_cwd env start) \<longrightarrow>
            fst (test_find_project_root_with env MAVEN_MARKERS start) = None
          \<and> fst (test_find_project_root_with env GRADLE_MARKERS start) = None
          \<and> fst (detect_and_run_tests env start task dry_run) = Inr 0
          \<and> (\<forall>e\<in>set (snd (detect_and_run_tests env start task dry_run)). \<not> is_Run e))
       \<and> (cur = os_path_abspath env (os_getcwd env) \<longrightarrow>
            fst (spotless_find_project_root_with env MAVEN_MARKERS) = None
          \<and> fst (spotless_find_project_root_with env GRADLE_MARKERS) = None
          \<and> fst (spotless_main env) = Inr 0
          \<and> (\<forall>e\<in>set (snd (spotless_main env)). \<not> is_Run e))"
proof -
  from none have m: "fst (find_root_loop env MAVEN_MARKERS cur) = None"
    by (intro find_root_loop_none) (simp add: marker_scan_found)
  from none have g: "fst (find_root_loop env GRADLE_MARKERS cur) = None"
    by (intro find_root_loop_none) (simp add: marker_scan_found)
  show ?thesis
  proof (intro conjI impI)
    assume c: "cur = os_path_abspath env (start_or_cwd env start)"
    from m c show tm: "fst (test_find_project_root_with env MAVEN_MARKERS start) = None"
      by (simp add: test_find_project_root_with_def)
    from g c show tg: "fst (test_find_project_root_with env GRADLE_MARKERS start) = None"
      by (simp add: test_find_project_root_with_def)
    from tm tg show "fst (detect_and_run_tests env start task dry_run) = Inr 0"
      by (simp add: detect_nothing)
    from tm tg show "\<forall>e\<in>set (snd (detect_and_run_tests env start task dry_run)). \<not> is_Run e"
      by (auto simp: detect_nothing test_find_project_root_with_def dest: is_Run_find_root_loop)
  next
    assume c: "cur = os_path_abspath env (os_getcwd env)"
    from m c show tm: "fst (spotless_find_project_root_with env MAVEN_MARKERS) = None"
      by (simp add: spotless_find_project_root_with_def)
    from g c show tg: "fst (spotless_find_project_root_with env GRADLE_MARKERS) = None"
      by (simp add: spotless_find_project_root_with_def)
    from tm tg show "fst (spotless_main env) = Inr 0"
      by (simp add: spotless_nothing)
    from tm tg show "\<forall>e\<in>set (snd (spotless_main env)). \<not> is_Run e"
      by (auto simp: spotless_nothing spotless_find_project_root_with_def dest: is_Run_find_root_loop)
  qed
qed

theorem no_marker_no_action_witness:
  "fst (test_find_project_root_with empty_env MAVEN_MARKERS None) = None
   \<and> fst (test_find_project_root_with empty_env GRADLE_MARKERS None) = None
   \<and> fst (detect_and_run_tests empty_env None ''test'' False) = Inr 0
   \<and> fst (spotless_main empty_env) = Inr 0"
proof -
  have h: "\<forall>d. \<forall>m\<in>set (MAVEN_MARKERS @ GRADLE_MARKERS).
             \<not> os_path_exists empty_env (os_path_join ((os_path_dirname ^^ d) ''/srv/data'') m)"
    by (simp add: empty_env_def)
  have c1: "''/srv/data'' = os_path_abspath empty_env (start_or_cwd empty_env None)"
    by code_simp
  have c2: "''/srv/data'' = os_path_abspath empty_env (os_getcwd empty_env)"
    by code_simp
  note w = no_marker_no_action[OF h, where start = None and task = "''test''" and dry_run = False]
  from w c1 c2 show ?thesis
    by blast
qed

subsection \<open>Tool resolver\<close>

text \<open>
  Claim C2. Whenever some candidate of the list is acceptable inside the directory,
  \<^verbatim>\<open>which_in_dir\<close> returns an in-directory candidate (the first acceptable one in list
  order) and never asks the search path, whatever the search path holds for the names
  earlier in the list. In every run the queries of the in-directory pass come first and
  hold no search-path lookup; the search-path lookups follow, and only when the
  in-directory pass found nothing. Stated for both scripts, each with its own acceptance
  test.
\<close>

theorem in_directory_candidate_preferred:
  "(n \<in> set names \<and> test_invocable env (os_path_join d n) \<longrightarrow>
      (\<exists>n'. List.find (\<lambda>x. test_invocable env (os_path_join d x)) names = Some n'
            \<and> fst (test_which_in_dir env names d) = Some (os_path_join d n'))
      \<and> (\<forall>e\<in>set (snd (test_which_in_dir env names d)). \<not> is_Which e))
   \<and> (n \<in> set names \<and> spotless_invocable env (os_path_join d n) \<longrightarrow>
      (\<exists>n'. List.find (\<lambda>x. spotless_invocable env (os_path_join d x)) names = Some n'
            \<and> fst (spotless_which_in_dir env names d) = Some (os_path_join d n'))
      \<and> (\<forall>e\<in>set (snd (spotless_which_in_dir env names d)). \<not> is_Which e))
   \<and> snd (test_which_in_dir env names d) =
       snd (test_which_local env d names)
         @ (if fst (test_which_local env d names) = None then snd (which_on_path env names)
            else [])
   \<and> snd (spotless_which_in_dir env names d) =
       snd (spotless_which_local env d names)
         @ (if fst (spotless_which_local env d names) = None then snd (which_on_path env names)
            else [])
   \<and> (\<forall>e\<in>set (snd (test_which_local env d names)). \<not> is_Which e)
   \<and> (\<forall>e\<in>set (snd (spotless_which_local env d names)). \<not> is_Which e)
   \<and> (\<forall>e\<in>set (snd (which_on_path env names)). is_Which e)"
proof (intro conjI impI)
  assume acc: "n \<in> set names \<and> test_invocable env (os_path_join d n)"
  then obtain n' where f: "List.find (\<lambda>x. test_invocable env (os_path_join d x)) names = Some n'"
    using find_Some_ex[of n names "\<lambda>x. test_invocable env (os_path_join d x)"] by blast
  then have l: "fst (test_which_local env d names) = Some (os_path_join d n')"
    by (simp add: test_which_local_find)
  then have w: "test_which_in_dir env names d = test_which_local env d names"
    by (rule test_which_in_dir_local)
  from f l w show "\<exists>n'. List.find (\<lambda>x. test_invocable env (os_path_join d x)) names = Some n'
                  \<and> fst (test_which_in_dir env names d) = Some (os_path_join d n')"
    by simp
  from w show "\<forall>e\<in>set (snd (test_which_in_dir env names d)). \<not> is_Which e"
    by (simp add: test_which_local_no_Which)
next
  assume acc: "n \<in> set names \<and> spotless_invocable env (os_path_join d n)"
  then obtain n' where f: "List.find (\<lambda>x. spotless_invocable env (os_path_join d x)) names = Some n'"
    using find_Some_ex[of n names "\<lambda>x. spotless_invocable env (os_path_join d x)"] by blast
  then have l: "fst (spotless_which_local env d names) = Some (os_path_join d n')"
    by (simp add: spotless_which_local_find)
  then have w: "spotless_which_in_dir env names d = spotless_which_local env d names"
    by (rule spotless_which_in_dir_local)
  from f l w show "\<exists>n'. List.find (\<lambda>x. spotless_invocable env (os_path_join d x)) names = Some n'
                  \<and> fst (spotless_which_in_dir env names d) = Some (os_path_join d n')"
    by simp
  from w show "\<forall>e\<in>set (snd (spotless_which_in_dir env names d)). \<not> is_Which e"
    by (simp add: spotless_which_local_no_Which)
next
  show "snd (test_which_in_dir env names d) =
       snd (test_which_local env d names)
         @ (if fst (test_which_local env d names) = None then snd (which_on_path env names)
            else [])"
    by (rule test_which_in_dir_trace)
next
  show "snd (spotless_which_in_dir env names d) =
       snd (spotless_which_local env d names)
         @ (if fst (spotless_which_local env d names) = None then snd (which_on_path env names)
            else [])"
    by (rule spotless_which_in_dir_trace)
next
  show "\<forall>e\<in>set (snd (test_which_local env d names)). \<not> is_Which e"
    by (simp add: test_which_local_no_Which)
next
  show "\<forall>e\<in>set (snd (spotless_which_local env d names)). \<not> is_Which e"
    by (simp add: spotless_which_local_no_Which)
next
  show "\<forall>e\<in>set (snd (which_on_path env names)). is_Which e"
    by (simp add: which_on_path_only_Which)
qed

text \<open>
  In \<open>gradle_env\<close> the first candidate \<^verbatim>\<open>gradlew\<close> exists only on the search path and the
  third, \<^verbatim>\<open>gradle\<close>, is in the directory: the in-directory \<^verbatim>\<open>gradle\<close> is returned.
\<close>

theorem in_directory_candidate_preferred_witness:
  "shutil_which gradle_env ''gradlew'' = Some ''/usr/bin/gradlew''
   \<and> \<not> os_path_exists gradle_env ''/w/app/gradlew''
   \<and> fst (test_which_in_dir gradle_env GRADLE_WRAPPERS ''/w/app'') = Some ''/w/app/gradle''
   \<and> fst (spotless_which_in_dir gradle_env GRADLE_WRAPPERS ''/w/app'') = Some ''/w/app/gradle''"
proof -
  have t: "''gradle'' \<in> set GRADLE_WRAPPERS
           \<and> test_invocable gradle_env (os_path_join ''/w/app'' ''gradle'')"
    by code_simp
  have s: "''gradle'' \<in> set GRADLE_WRAPPERS
           \<and> spotless_invocable gradle_env (os_path_join ''/w/app'' ''gradle'')"
    by code_simp
  have ft: "List.find (\<lambda>x. test_invocable gradle_env (os_path_join ''/w/app'' x)) GRADLE_WRAPPERS
              = Some ''gradle''"
    by code_simp
  have fs: "List.find (\<lambda>x. spotless_invocable gradle_env (os_path_join ''/w/app'' x)) GRADLE_WRAPPERS
              = Some ''gradle''"
    by code_simp
  have j: "os_path_join ''/w/app'' ''gradle'' = ''/w/app/gradle''"
    by code_simp
  have p: "shutil_which gradle_env ''gradlew'' = Some ''/usr/bin/gradlew''
           \<and> \<not> os_path_exists gradle_env ''/w/app/gradlew''"
    by code_simp
  note w = in_directory_candidate_preferred
             [where n = "''gradle''" and names = GRADLE_WRAPPERS and env = gradle_env
                and d = "''/w/app''", unfolded ft fs]
  from w t s have "fst (test_which_in_dir gradle_env GRADLE_WRAPPERS ''/w/app'')
                     = Some (os_path_join ''/w/app'' ''gradle'')
                 \<and> fst (spotless_which_in_dir gradle_env GRADLE_WRAPPERS ''/w/app'')
                     = Some (os_path_join ''/w/app'' ''gradle'')"
    by blast
  with p show ?thesis
    by (simp only: j simp_thms)
qed

text \<open>
  In \<^verbatim>\<open>spotless_apply.py\<close> any candidate that the in-directory pass returns has passed
  \<^verbatim>\<open>os.access(candidate, os.X_OK)\<close>, whatever its name ends in.
\<close>

lemma spotless_requires_execute_bit:
  "fst (spotless_which_local env d names) = Some c \<Longrightarrow> os_access_X_OK env c"
  by (induction names) (auto simp: Let_def split: if_splits)

lemma test_accepts_script_without_execute_bit:
  "os_path_exists env (os_path_join d n) \<Longrightarrow> endswith_bat_cmd (lower (os_path_join d n)) \<Longrightarrow>
   fst (test_which_local env d (n # names)) = Some (os_path_join d n)"
  by (simp add: Let_def)

text \<open>
  Claim C3. The claim says that in both scripts the in-directory pass accepts an existing
  candidate whose name ends in \<^verbatim>\<open>.bat\<close> or \<^verbatim>\<open>.cmd\<close> even without the execute permission.
  \<^verbatim>\<open>test.py\<close> does so. \<^verbatim>\<open>spotless_apply.py\<close> does not: in \<open>cmd_script_env\<close>, where
  \<^verbatim>\<open>/w/win/mvnw.cmd\<close> exists without the execute permission and nothing is on the search
  path, \<^verbatim>\<open>which_in_dir\<close> of \<^verbatim>\<open>test.py\<close> returns the script, \<^verbatim>\<open>which_in_dir\<close> of
  \<^verbatim>\<open>spotless_apply.py\<close> returns \<open>None\<close>, and \<^verbatim>\<open>spotless_apply.py\<close> exits with 127.
\<close>

theorem spotless_rejects_script_without_execute_bit:
  "os_path_exists cmd_script_env ''/w/win/mvnw.cmd''
   \<and> \<not> os_access_X_OK cmd_script_env ''/w/win/mvnw.cmd''
   \<and> fst (test_which_in_dir cmd_script_env MAVEN_WRAPPERS ''/w/win'') = Some ''/w/win/mvnw.cmd''
   \<and> fst (spotless_which_in_dir cmd_script_env MAVEN_WRAPPERS ''/w/win'') = None
   \<and> fst (spotless_main cmd_script_env) = Inr 127"
  by code_simp

subsection \<open>Command runner\<close>

lemma test_run_cmd_interrupted:
  "subprocess_run env cmd cwd = KeyboardInterrupt \<Longrightarrow> fst (test_run_cmd env cmd cwd) = Inr 130"
  by (simp add: test_run_cmd_def)

lemma spotless_run_cmd_interrupted:
  "subprocess_run env cmd cwd = KeyboardInterrupt \<Longrightarrow>
   fst (spotless_run_cmd env cmd cwd) = Inl KeyboardInterrupt_raised"
  by (simp add: spotless_run_cmd_def)

text \<open>
  Claim C4. The claim says that both scripts report the exit status 130 when the user
  interrupts the child. \<^verbatim>\<open>test.py\<close> does. \<^verbatim>\<open>run_cmd\<close> of \<^verbatim>\<open>spotless_apply.py\<close> has no
  handler for \<^verbatim>\<open>KeyboardInterrupt\<close>: in \<open>interrupted_env\<close> the exception leaves
  \<^verbatim>\<open>run_cmd\<close> and \<^verbatim>\<open>main\<close> uncaught, so that \<^verbatim>\<open>sys.exit(rc)\<close> is never reached and no
  status 130 is returned.
\<close>

theorem spotless_interrupt_leaves_uncaught:
  "subprocess_run interrupted_env [''/home/u/proj/mvnw'', ''spotless:apply''] ''/home/u/proj''
     = KeyboardInterrupt
   \<and> fst (detect_and_run_tests interrupted_env None ''test'' False) = Inr 130
   \<and> fst (spotless_run_cmd interrupted_env [''/home/u/proj/mvnw'', ''spotless:apply''] ''/home/u/proj'')
       = Inl KeyboardInterrupt_raised
   \<and> fst (spotless_main interrupted_env) = Inl KeyboardInterrupt_raised"
  by code_simp

text \<open>
  Claim C8. When \<^verbatim>\<open>subprocess.run\<close> completes with a return code, \<^verbatim>\<open>run_cmd\<close> returns that
  code unchanged, and a program run that launched this child returns that code as its
  own result. Stated for both scripts.
\<close>

theorem child_status_propagated:
  assumes "subprocess_run env cmd cwd = Returncode rc"
  shows "fst (test_run_cmd env cmd cwd) = Inr rc
       \<and> fst (spotless_run_cmd env cmd cwd) = Inr rc
       \<and> (Run cmd cwd \<in> set (snd (detect_and_run_tests env start task dry_run)) \<longrightarrow>
            fst (detect_and_run_tests env start task dry_run) = Inr rc)
       \<and> (Run cmd cwd \<in> set (snd (test_main env a)) \<longrightarrow> fst (test_main env a) = Inr rc)
       \<and> (Run cmd cwd \<in> set (snd (spotless_main env)) \<longrightarrow> fst (spotless_main env) = Inr rc)"
  using assms
  by (auto simp: test_run_cmd_completed spotless_run_cmd_completed test_main_def
           dest: detect_Run spotless_Run)

theorem child_status_propagated_witness:
  "fst (test_run_cmd maven_env [''/home/u/proj/mvnw'', ''test''] ''/home/u/proj'') = Inr 3
   \<and> fst (detect_and_run_tests maven_env None ''test'' False) = Inr 3
   \<and> fst (spotless_main (maven_env \<lparr> subprocess_run := (\<lambda>cmd cwd. Returncode 1) \<rparr>)) = Inr 1"
proof -
  let ?env = "maven_env \<lparr> subprocess_run := (\<lambda>cmd cwd. Returncode 1) \<rparr>"
  have h1: "subprocess_run maven_env [''/home/u/proj/mvnw'', ''test''] ''/home/u/proj'' = Returncode 3"
    by code_simp
  have h2: "Run [''/home/u/proj/mvnw'', ''test''] ''/home/u/proj''
              \<in> set (snd (detect_and_run_tests maven_env None ''test'' False))"
    by code_simp
  have h3: "subprocess_run ?env [''/home/u/proj/mvnw'', ''spotless:apply''] ''/home/u/proj'' = Returncode 1"
    by code_simp
  have h4: "Run [''/home/u/proj/mvnw'', ''spotless:apply''] ''/home/u/proj''
              \<in> set (snd (spotless_main ?env))"
    by code_simp
  note w1 = child_status_propagated[OF h1, where start = None and task = "''test''"
                                      and dry_run = False]
  note w2 = child_status_propagated[OF h3]
  from w1 w2 h2 h4 show ?thesis
    by blast
qed

subsection \<open>Orchestrators\<close>

text \<open>
  Claim C5. When the Maven markers locate a root and no Maven tool candidate resolves, the
  run returns 127, and it consists of the Maven root location, the line announcing the
  Maven project, the Maven tool resolution and the error line, in this order: no event
  of it asks for a file or a command with a Gradle name (a Gradle marker or a Gradle tool
  candidate), and none is a call of \<^verbatim>\<open>subprocess.run\<close>. Stated for both scripts.
\<close>

theorem maven_tool_missing_aborts:
  "(fst (test_find_project_root_with env MAVEN_MARKERS start) = Some mroot \<and> mroot \<noteq> []
      \<and> \<not> truthy (fst (test_which_in_dir env MAVEN_WRAPPERS mroot))
    \<longrightarrow> detect_and_run_tests env start task dry_run =
          (Inr 127,
           snd (test_find_project_root_with env MAVEN_MARKERS start)
             @ Stdout (Projeto_Maven_detectado_em mroot)
             # snd (test_which_in_dir env MAVEN_WRAPPERS mroot)
             @ [Stderr Maven_nao_encontrado])
        \<and> (\<forall>e\<in>set (snd (detect_and_run_tests env start task dry_run)).
              \<not> is_Run e \<and> \<not> probes (GRADLE_MARKERS @ GRADLE_WRAPPERS) e))
   \<and> (fst (spotless_find_project_root_with env MAVEN_MARKERS) = Some sroot \<and> sroot \<noteq> []
      \<and> \<not> truthy (fst (spotless_which_in_dir env MAVEN_WRAPPERS sroot))
    \<longrightarrow> spotless_main env =
          (Inr 127,
           snd (spotless_find_project_root_with env MAVEN_MARKERS)
             @ Stdout (Projeto_Maven_detectado_em sroot)
             # snd (spotless_which_in_dir env MAVEN_WRAPPERS sroot)
             @ [Stderr Maven_nao_encontrado])
        \<and> (\<forall>e\<in>set (snd (spotless_main env)).
              \<not> is_Run e \<and> \<not> probes (GRADLE_MARKERS @ GRADLE_WRAPPERS) e))"
proof (intro conjI impI)
  assume h: "fst (test_find_project_root_with env MAVEN_MARKERS start) = Some mroot \<and> mroot \<noteq> []
      \<and> \<not> truthy (fst (test_which_in_dir env MAVEN_WRAPPERS mroot))"
  then have eq: "detect_and_run_tests env start task dry_run =
          (Inr 127,
           snd (test_find_project_root_with env MAVEN_MARKERS start)
             @ Stdout (Projeto_Maven_detectado_em mroot)
             # snd (test_which_in_dir env MAVEN_WRAPPERS mroot)
             @ [Stderr Maven_nao_encontrado])"
    by (simp add: detect_maven_no_tool)
  then show "detect_and_run_tests env start task dry_run =
          (Inr 127,
           snd (test_find_project_root_with env MAVEN_MARKERS start)
             @ Stdout (Projeto_Maven_detectado_em mroot)
             # snd (test_which_in_dir env MAVEN_WRAPPERS mroot)
             @ [Stderr Maven_nao_encontrado])" .
  show "\<forall>e\<in>set (snd (detect_and_run_tests env start task dry_run)).
              \<not> is_Run e \<and> \<not> probes (GRADLE_MARKERS @ GRADLE_WRAPPERS) e"
    unfolding eq test_find_project_root_with_def
    using maven_find_event maven_test_which_event by auto
next
  assume h: "fst (spotless_find_project_root_with env MAVEN_MARKERS) = Some sroot \<and> sroot \<noteq> []
      \<and> \<not> truthy (fst (spotless_which_in_dir env MAVEN_WRAPPERS sroot))"
  then have eq: "spotless_main env =
          (Inr 127,
           snd (spotless_find_project_root_with env MAVEN_MARKERS)
             @ Stdout (Projeto_Maven_detectado_em sroot)
             # snd (spotless_which_in_dir env MAVEN_WRAPPERS sroot)
             @ [Stderr Maven_nao_encontrado])"
    by (simp add: spotless_maven_no_tool)
  then show "spotless_main env =
          (Inr 127,
           snd (spotless_find_project_root_with env MAVEN_MARKERS)
             @ Stdout (Projeto_Maven_detectado_em sroot)
             # snd (spotless_which_in_dir env MAVEN_WRAPPERS sroot)
             @ [Stderr Maven_nao_encontrado])" .
  show "\<forall>e\<in>set (snd (spotless_main env)).
              \<not> is_Run e \<and> \<not> probes (GRADLE_MARKERS @ GRADLE_WRAPPERS) e"
    unfolding eq spotless_find_project_root_with_def
    using maven_find_event maven_spotless_which_event by auto
qed

text \<open>
  In \<open>maven_no_tool_env\<close> the directory holds \<^verbatim>\<open>pom.xml\<close> and no Maven tool, and also
  \<^verbatim>\<open>build.gradle\<close> and an executable \<^verbatim>\<open>gradlew\<close>: both scripts return 127.
\<close>

theorem maven_tool_missing_aborts_witness:
  "fst (test_find_project_root_with maven_no_tool_env MAVEN_MARKERS None) = Some ''/w/lib''
   \<and> os_path_exists maven_no_tool_env ''/w/lib/build.gradle''
   \<and> fst (detect_and_run_tests maven_no_tool_env None ''test'' False) = Inr 127
   \<and> fst (spotless_main maven_no_tool_env) = Inr 127"
proof -
  have r1: "fst (test_find_project_root_with maven_no_tool_env MAVEN_MARKERS None) = Some ''/w/lib''
            \<and> ''/w/lib'' \<noteq> []
            \<and> \<not> truthy (fst (test_which_in_dir maven_no_tool_env MAVEN_WRAPPERS ''/w/lib''))"
    by code_simp
  have r2: "fst (spotless_find_project_root_with maven_no_tool_env MAVEN_MARKERS) = Some ''/w/lib''
            \<and> ''/w/lib'' \<noteq> []
            \<and> \<not> truthy (fst (spotless_which_in_dir maven_no_tool_env MAVEN_WRAPPERS ''/w/lib''))"
    by code_simp
  have g: "os_path_exists maven_no_tool_env ''/w/lib/build.gradle''"
    by code_simp
  note w = maven_tool_missing_aborts
             [where env = maven_no_tool_env and start = None and mroot = "''/w/lib''"
                and sroot = "''/w/lib''" and task = "''test''" and dry_run = False]
  from w r1 have a: "fst (detect_and_run_tests maven_no_tool_env None ''test'' False) = Inr 127"
    by (metis fst_conv)
  from w r2 have b: "fst (spotless_main maven_no_tool_env) = Inr 127"
    by (metis fst_conv)
  from r1 g a b show ?thesis
    by blast
qed

text \<open>
  Claim C10. In \<^verbatim>\<open>test.py\<close> the tool is resolved before the dry-run flag is looked at:
  when a root is located (by the Maven markers, or by the Gradle markers after the Maven
  markers located none) and no tool candidate of that kind resolves, the result under
  \<^verbatim>\<open>--dry-run\<close> is 127, not 0, and the run ends with the error line: no would-be command
  is printed.
\<close>

theorem tool_resolution_before_dry_run:
  "(fst (test_find_project_root_with env MAVEN_MARKERS start) = Some mroot \<and> mroot \<noteq> []
      \<and> \<not> truthy (fst (test_which_in_dir env MAVEN_WRAPPERS mroot))
    \<longrightarrow> detect_and_run_tests env start task True =
          (Inr 127,
           snd (test_find_project_root_with env MAVEN_MARKERS start)
             @ Stdout (Projeto_Maven_detectado_em mroot)
             # snd (test_which_in_dir env MAVEN_WRAPPERS mroot)
             @ [Stderr Maven_nao_encontrado]))
   \<and> (\<not> truthy (fst (test_find_project_root_with env MAVEN_MARKERS start))
      \<and> fst (test_find_project_root_with env GRADLE_MARKERS start) = Some groot \<and> groot \<noteq> []
      \<and> \<not> truthy (fst (test_which_in_dir env GRADLE_WRAPPERS groot))
    \<longrightarrow> detect_and_run_tests env start task True =
          (Inr 127,
           snd (test_find_project_root_with env MAVEN_MARKERS start)
             @ snd (test_find_project_root_with env GRADLE_MARKERS start)
             @ Stdout (Projeto_Gradle_detectado_em groot)
             # snd (test_which_in_dir env GRADLE_WRAPPERS groot)
             @ [Stderr Gradle_nao_encontrado]))"
  by (simp add: detect_maven_no_tool detect_gradle_no_tool)

theorem tool_resolution_before_dry_run_witness:
  "fst (detect_and_run_tests maven_no_tool_env None ''test'' True) = Inr 127
   \<and> fst (detect_and_run_tests gradle_no_tool_env None ''test'' True) = Inr 127"
proof -
  have r1: "fst (test_find_project_root_with maven_no_tool_env MAVEN_MARKERS None) = Some ''/w/lib''
            \<and> ''/w/lib'' \<noteq> []
            \<and> \<not> truthy (fst (test_which_in_dir maven_no_tool_env MAVEN_WRAPPERS ''/w/lib''))"
    by code_simp
  have r2: "\<not> truthy (fst (test_find_project_root_with gradle_no_tool_env MAVEN_MARKERS None))
            \<and> fst (test_find_project_root_with gradle_no_tool_env GRADLE_MARKERS None) = Some ''/w/kts''
            \<and> ''/w/kts'' \<noteq> []
            \<and> \<not> truthy (fst (test_which_in_dir gradle_no_tool_env GRADLE_WRAPPERS ''/w/kts''))"
    by code_simp
  note w1 = tool_resolution_before_dry_run
              [where env = maven_no_tool_env and start = None and mroot = "''/w/lib''"
                 and task = "''test''"]
  note w2 = tool_resolution_before_dry_run
              [where env = gradle_no_tool_env and start = None and groot = "''/w/kts''"
                 and task = "''test''"]
  from w1 r1 have a: "fst (detect_and_run_tests maven_no_tool_env None ''test'' True) = Inr 127"
    by (metis fst_conv)
  from w2 r2 have b: "fst (detect_and_run_tests gradle_no_tool_env None ''test'' True) = Inr 127"
    by (metis fst_conv)
  from a b show ?thesis
    by blast
qed

text \<open>
  Claim C7. In \<^verbatim>\<open>test.py\<close>, when a root is located and a tool of that kind resolves, a
  run with \<^verbatim>\<open>--dry-run\<close> returns 0, its last line printed is the would-be command (tool
  and task) with the working directory, and it never calls \<^verbatim>\<open>subprocess.run\<close>.
\<close>

theorem dry_run_launches_nothing:
  "(fst (test_find_project_root_with env MAVEN_MARKERS start) = Some mroot \<and> mroot \<noteq> []
      \<and> fst (test_which_in_dir env MAVEN_WRAPPERS mroot) = Some mvn \<and> mvn \<noteq> []
    \<longrightarrow> fst (detect_and_run_tests env start task True) = Inr 0
        \<and> last (snd (detect_and_run_tests env start task True))
            = Stdout (Dry_run_Comando [mvn, task] mroot)
        \<and> (\<forall>e\<in>set (snd (detect_and_run_tests env start task True)). \<not> is_Run e))
   \<and> (\<not> truthy (fst (test_find_project_root_with env MAVEN_MARKERS start))
      \<and> fst (test_find_project_root_with env GRADLE_MARKERS start) = Some groot \<and> groot \<noteq> []
      \<and> fst (test_which_in_dir env GRADLE_WRAPPERS groot) = Some gradle \<and> gradle \<noteq> []
    \<longrightarrow> fst (detect_and_run_tests env start task True) = Inr 0
        \<and> last (snd (detect_and_run_tests env start task True))
            = Stdout (Dry_run_Comando [gradle, task] groot)
        \<and> (\<forall>e\<in>set (snd (detect_and_run_tests env start task True)). \<not> is_Run e))"
  by (auto simp: detect_maven_dry_run detect_gradle_dry_run test_find_project_root_with_def
           dest: is_Run_find_root_loop is_Run_test_which)

text \<open>
  The scenario of the specification: a Gradle project with a resolved tool, under
  \<^verbatim>\<open>--dry-run\<close>; and the Maven project of \<open>maven_env\<close> with the goal \<^verbatim>\<open>verify\<close>.
\<close>

theorem dry_run_launches_nothing_witness:
  "fst (detect_and_run_tests maven_env None ''verify'' True) = Inr 0
   \<and> last (snd (detect_and_run_tests maven_env None ''verify'' True))
       = Stdout (Dry_run_Comando [''/home/u/proj/mvnw'', ''verify''] ''/home/u/proj'')
   \<and> fst (detect_and_run_tests gradle_env None ''test'' True) = Inr 0
   \<and> last (snd (detect_and_run_tests gradle_env None ''test'' True))
       = Stdout (Dry_run_Comando [''/w/app/gradle'', ''test''] ''/w/app'')"
proof -
  have r1: "fst (test_find_project_root_with maven_env MAVEN_MARKERS None) = Some ''/home/u/proj''
            \<and> ''/home/u/proj'' \<noteq> []
            \<and> fst (test_which_in_dir maven_env MAVEN_WRAPPERS ''/home/u/proj'') = Some ''/home/u/proj/mvnw''
            \<and> ''/home/u/proj/mvnw'' \<noteq> []"
    by code_simp
  have r2: "\<not> truthy (fst (test_find_project_root_with gradle_env MAVEN_MARKERS None))
            \<and> fst (test_find_project_root_with gradle_env GRADLE_MARKERS None) = Some ''/w/app''
            \<and> ''/w/app'' \<noteq> []
            \<and> fst (test_which_in_dir gradle_env GRADLE_WRAPPERS ''/w/app'') = Some ''/w/app/gradle''
            \<and> ''/w/app/gradle'' \<noteq> []"
    by code_simp
  note w1 = dry_run_launches_nothing
              [where env = maven_env and start = None and mroot = "''/home/u/proj''"
                 and mvn = "''/home/u/proj/mvnw''" and task = "''verify''"]
  note w2 = dry_run_launches_nothing
              [where env = gradle_env and start = None and groot = "''/w/app''"
                 and gradle = "''/w/app/gradle''" and task = "''test''"]
  from w1 r1 have a: "fst (detect_and_run_tests maven_env None ''verify'' True) = Inr 0
        \<and> last (snd (detect_and_run_tests maven_env None ''verify'' True))
            = Stdout (Dry_run_Comando [''/home/u/proj/mvnw'', ''verify''] ''/home/u/proj'')"
    by blast
  from w2 r2 have b: "fst (detect_and_run_tests gradle_env None ''test'' True) = Inr 0
        \<and> last (snd (detect_and_run_tests gradle_env None ''test'' True))
            = Stdout (Dry_run_Comando [''/w/app/gradle'', ''test''] ''/w/app'')"
    by blast
  from a b show ?thesis
    by blast
qed

end
